theory Spec2Isabelle
  imports Main "HOL-Library.Word"
begin

unbundle bit_operations_syntax

section \<open>Machine types\<close>

text \<open>
  The C++ scalar types of the sources on a 64-bit platform: \<open>int\<close> and \<open>int32_t\<close> are
  32-bit words read with \<open>sint\<close>; \<open>size_t\<close> is a 64-bit word read with \<open>unat\<close>;
  \<open>faiss::idx_t\<close> is \<open>int64_t\<close> (faiss_index.h). A \<open>float\<close> is its IEEE binary32 bit
  pattern: the wrapper never computes with floats, it only copies them and compares a
  radius with zero.
\<close>

type_synonym cint = "32 word"
type_synonym size_t = "64 word"
type_synonym idx_t = "64 word"
type_synonym uint8_t = "8 word"
type_synonym float = "32 word"

definition float_is_nan :: "float \<Rightarrow> bool" where
  "float_is_nan w \<longleftrightarrow> w AND 0x7F800000 = 0x7F800000 \<and> w AND 0x007FFFFF \<noteq> 0"

text \<open>\<open>x < 0\<close> on binary32: sign bit set, not a NaN, not negative zero.\<close>

definition float_lt_zero :: "float \<Rightarrow> bool" where
  "float_lt_zero w \<longleftrightarrow> bit w 31 \<and> \<not> float_is_nan w \<and> w \<noteq> 0x80000000"

text \<open>\<open>static_cast<int32_t>\<close> of an \<open>int64_t\<close>: the low 32 bits.\<close>

definition static_cast_int32 :: "idx_t \<Rightarrow> cint" where
  "static_cast_int32 label = ucast label"

text \<open>The four bytes of a 32-bit value in memory, on a little-endian host.\<close>

definition le32 :: "32 word \<Rightarrow> uint8_t list" where
  "le32 w = [ucast w, ucast (drop_bit 8 w), ucast (drop_bit 16 w), ucast (drop_bit 24 w)]"

text \<open>
  A pointer to an array is \<open>None\<close> (the null pointer) or the array it points to.
  \<open>std::vector::data()\<close> of an empty vector is the null pointer in libstdc++, libc++ and
  the MSVC library (a vector that never allocated).
\<close>

type_synonym 'a ptr = "'a list option"

definition vector_data :: "'a list \<Rightarrow> 'a ptr" where
  "vector_data xs = (if xs = [] then None else Some xs)"

text \<open>
  \<open>std::vector<T>::resize(n)\<close> on a fresh vector: \<open>std::length_error\<close> above
  \<open>max_size()\<close> (\<open>PTRDIFF_MAX / sizeof(T)\<close>), else \<open>n\<close> value-initialised elements.
\<close>

definition vector_resize :: "nat \<Rightarrow> size_t \<Rightarrow> 'a::zero \<Rightarrow> string + 'a list" where
  "vector_resize elem_size n z =
     (if unat n > (2 ^ 63 - 1) div elem_size then Inl ''vector::_M_default_append''
      else Inr (replicate (unat n) z))"

text \<open>
  The backend writes the first \<open>n\<close> slots of a caller-allocated output array; slots
  beyond the array are not part of the model.
\<close>

definition fill :: "'a list \<Rightarrow> nat \<Rightarrow> (nat \<Rightarrow> 'a) \<Rightarrow> 'a list" where
  "fill buf n f = map (\<lambda>i. if i < n then f i else buf ! i) [0..<length buf]"

text \<open>\<open>std::to_string\<close> of an unsigned and of a signed value.\<close>

fun to_string_nat :: "nat \<Rightarrow> string" where
  "to_string_nat n =
     (if n < 10 then [char_of (48 + n)]
      else to_string_nat (n div 10) @ [char_of (48 + n mod 10)])"

declare to_string_nat.simps [simp del]

definition to_string_int :: "int \<Rightarrow> string" where
  "to_string_int i = (if i < 0 then CHR ''-'' # to_string_nat (nat (- i)) else to_string_nat (nat i))"

section \<open>Exceptions and events\<close>

text \<open>
  The C++ exceptions the wrapper throws or lets through. \<open>other_exception\<close> is any other
  subclass of \<open>std::exception\<close> (a \<open>faiss::FaissException\<close>, \<open>std::length_error\<close>) with
  its \<open>what()\<close>. \<open>null_dereference\<close> is the use of a null \<open>index\_\<close>: no handler of the
  sources catches it.
\<close>

datatype exn =
    invalid_argument string
  | runtime_error string
  | other_exception string
  | null_dereference

fun what :: "exn \<Rightarrow> string option" where
  "what (invalid_argument m) = Some m"
| "what (runtime_error m) = Some m"
| "what (other_exception m) = Some m"
| "what null_dereference = None"

text \<open>
  What an operation does to the mutexes and to the backend, in program order:
  a \<open>std::lock_guard\<close> on the mutex of a wrapper, its release at scope exit, and an
  access through \<open>index\_\<close>. Wrappers are told apart by the identity of their mutex.
\<close>

datatype event = Acquire nat | Release nat | Backend nat

section \<open>The FAISS library\<close>

text \<open>
  \<open>faiss::Index\<close> and the free functions of the FAISS library are not part of this
  repository: they are a parameter of every wrapper operation. \<open>'b\<close> is the state of an
  index object. An operation that can throw returns \<open>Some\<close> of the message of its
  exception; a mutating one also returns the state it leaves behind. \<open>faiss_search\<close>
  gives the value written to each slot of the two output arrays (\<open>nq * k\<close> slots each).
  \<open>faiss_merge_from\<close> receives both indexes by mutable reference and returns both.
  \<open>faiss_set_nprobe\<close> is the assignment behind the \<open>dynamic_cast\<close> to
  \<open>faiss::IndexIVF\<close>: the identity on an index of another class.
\<close>

record 'b faiss =
  faiss_index_factory :: "cint \<Rightarrow> string \<Rightarrow> cint \<Rightarrow> string + 'b"
  faiss_d :: "'b \<Rightarrow> cint"
  faiss_ntotal :: "'b \<Rightarrow> idx_t"
  faiss_is_trained :: "'b \<Rightarrow> bool"
  faiss_add :: "'b \<Rightarrow> idx_t \<Rightarrow> float list \<Rightarrow> string option \<times> 'b"
  faiss_train :: "'b \<Rightarrow> idx_t \<Rightarrow> float list \<Rightarrow> string option \<times> 'b"
  faiss_search :: "'b \<Rightarrow> idx_t \<Rightarrow> float list \<Rightarrow> idx_t \<Rightarrow> string + (nat \<Rightarrow> float) \<times> (nat \<Rightarrow> idx_t)"
  faiss_range_search :: "'b \<Rightarrow> float list \<Rightarrow> float \<Rightarrow> string + size_t \<times> (nat \<Rightarrow> float) \<times> (nat \<Rightarrow> idx_t)"
  faiss_merge_from :: "'b \<Rightarrow> 'b \<Rightarrow> string option \<times> 'b \<times> 'b"
  faiss_reset :: "'b \<Rightarrow> string option \<times> 'b"
  faiss_set_nprobe :: "'b \<Rightarrow> cint \<Rightarrow> 'b"
  faiss_write_index :: "'b \<Rightarrow> string + uint8_t list"
  faiss_read_index :: "uint8_t list \<Rightarrow> string + 'b"

text \<open>
  The files \<open>faiss::write_index\<close> and \<open>faiss::read_index\<close> go through: the content
  of each file that exists, and the paths that can be opened for writing.
\<close>

record filesystem =
  fs_files :: "string \<Rightarrow> uint8_t list option"
  fs_writable :: "string \<Rightarrow> bool"

section \<open>FaissIndexWrapper (faiss\_index.h, faiss\_index.cpp)\<close>

record 'b FaissIndexWrapper =
  index_w :: "'b option"
  dims_w :: cint
  disposed_w :: bool
  mutex_w :: nat

text \<open>
  The result of a method: its return value or the exception it throws, the wrapper
  afterwards, and its events. \<open>locked\<close> is the \<open>std::lock_guard\<close> around a body.
\<close>

type_synonym ('b, 'a) call = "(exn + 'a) \<times> 'b FaissIndexWrapper \<times> event list"

definition locked :: "'b FaissIndexWrapper \<Rightarrow> ('b, 'a) call \<Rightarrow> ('b, 'a) call" where
  "locked w body =
     (case body of (r, w', ev) \<Rightarrow> (r, w', Acquire (mutex_w w) # ev @ [Release (mutex_w w)]))"

definition throw :: "exn \<Rightarrow> 'b FaissIndexWrapper \<Rightarrow> ('b, 'a) call" where
  "throw e w = (Inl e, w, [])"

definition FaissIndexWrapper :: "'b faiss \<Rightarrow> nat \<Rightarrow> cint \<Rightarrow> string \<Rightarrow> cint \<Rightarrow> exn + 'b FaissIndexWrapper" where
  "FaissIndexWrapper F m dims indexDescription metric =
     (if sint dims \<le> 0 then Inl (invalid_argument ''Dimensions must be positive'')
      else case faiss_index_factory F dims indexDescription metric of
             Inl msg \<Rightarrow> Inl (other_exception msg)
           | Inr b \<Rightarrow> Inr \<lparr>index_w = Some b, dims_w = dims, disposed_w = False, mutex_w = m\<rparr>)"

definition FaissIndexWrapper1 :: "'b faiss \<Rightarrow> nat \<Rightarrow> cint \<Rightarrow> exn + 'b FaissIndexWrapper" where
  "FaissIndexWrapper1 F m dims = FaissIndexWrapper F m dims ''Flat'' 1"

text \<open>The access \<open>index_->\<close>: a null \<open>index\_\<close> is a null dereference.\<close>

definition with_index ::
  "'b FaissIndexWrapper \<Rightarrow> ('b \<Rightarrow> ('b, 'a) call) \<Rightarrow> ('b, 'a) call" where
  "with_index w f = (case index_w w of None \<Rightarrow> throw null_dereference w | Some b \<Rightarrow> f b)"

definition Add :: "'b faiss \<Rightarrow> 'b FaissIndexWrapper \<Rightarrow> float ptr \<Rightarrow> size_t \<Rightarrow> ('b, unit) call" where
  "Add F w vectors n = locked w
     (if disposed_w w then throw (runtime_error ''Index has been disposed'') w
      else if vectors = None then throw (invalid_argument ''Vectors pointer cannot be null'') w
      else if n = 0 then (Inr (), w, [])
      else with_index w (\<lambda>b.
        let (thrown, b') = faiss_add F b n (the vectors) in
        (case thrown of Some msg \<Rightarrow> Inl (other_exception msg) | None \<Rightarrow> Inr (),
         w\<lparr>index_w := Some b'\<rparr>, [Backend (mutex_w w)])))"

text \<open>The clamp of \<open>Search\<close>, \<open>SearchBatch\<close> and of the two search workers.\<close>

definition clamp_k :: "cint \<Rightarrow> size_t \<Rightarrow> cint" where
  "clamp_k k ntotal = (if sint k > sint (ucast ntotal :: cint) then ucast ntotal else k)"

definition Search ::
  "'b faiss \<Rightarrow> 'b FaissIndexWrapper \<Rightarrow> float ptr \<Rightarrow> cint \<Rightarrow> float ptr \<Rightarrow> idx_t ptr
     \<Rightarrow> ('b, float list \<times> idx_t list) call" where
  "Search F w query k distances labels = locked w
     (if disposed_w w then throw (runtime_error ''Index has been disposed'') w
      else if query = None then throw (invalid_argument ''Query pointer cannot be null'') w
      else if distances = None \<or> labels = None
        then throw (invalid_argument ''Output arrays cannot be null'') w
      else if sint k \<le> 0 then throw (invalid_argument ''k must be positive'') w
      else with_index w (\<lambda>b.
        let ntotal = faiss_ntotal F b in
        if ntotal = 0 then (Inl (runtime_error ''Cannot search empty index''), w, [Backend (mutex_w w)])
        else
          let actual_k = clamp_k k ntotal in
          (case faiss_search F b 1 (the query) (scast actual_k) of
             Inl msg \<Rightarrow> Inl (other_exception msg)
           | Inr (fd, fl) \<Rightarrow>
               Inr (fill (the distances) (nat (sint actual_k)) fd,
                    fill (the labels) (nat (sint actual_k)) fl),
           w, [Backend (mutex_w w)])))"

definition SearchBatch ::
  "'b faiss \<Rightarrow> 'b FaissIndexWrapper \<Rightarrow> float ptr \<Rightarrow> size_t \<Rightarrow> cint \<Rightarrow> float ptr \<Rightarrow> idx_t ptr
     \<Rightarrow> ('b, float list \<times> idx_t list) call" where
  "SearchBatch F w queries nq k distances labels = locked w
     (if disposed_w w then throw (runtime_error ''Index has been disposed'') w
      else if queries = None then throw (invalid_argument ''Queries pointer cannot be null'') w
      else if distances = None \<or> labels = None
        then throw (invalid_argument ''Output arrays cannot be null'') w
      else if nq = 0 then throw (invalid_argument ''Number of queries must be positive'') w
      else if sint k \<le> 0 then throw (invalid_argument ''k must be positive'') w
      else with_index w (\<lambda>b.
        let ntotal = faiss_ntotal F b in
        if ntotal = 0 then (Inl (runtime_error ''Cannot search empty index''), w, [Backend (mutex_w w)])
        else
          let actual_k = clamp_k k ntotal in
          (case faiss_search F b nq (the queries) (scast actual_k) of
             Inl msg \<Rightarrow> Inl (other_exception msg)
           | Inr (fd, fl) \<Rightarrow>
               Inr (fill (the distances) (unat nq * nat (sint actual_k)) fd,
                    fill (the labels) (unat nq * nat (sint actual_k)) fl),
           w, [Backend (mutex_w w)])))"

definition GetTotalVectors :: "'b faiss \<Rightarrow> 'b FaissIndexWrapper \<Rightarrow> ('b, size_t) call" where
  "GetTotalVectors F w = locked w
     (if disposed_w w then (Inr 0, w, [])
      else with_index w (\<lambda>b. (Inr (faiss_ntotal F b), w, [Backend (mutex_w w)])))"

definition GetDimensions :: "'b FaissIndexWrapper \<Rightarrow> cint" where
  "GetDimensions w = dims_w w"

definition Train :: "'b faiss \<Rightarrow> 'b FaissIndexWrapper \<Rightarrow> float ptr \<Rightarrow> size_t \<Rightarrow> ('b, unit) call" where
  "Train F w vectors n = locked w
     (if disposed_w w then throw (runtime_error ''Index has been disposed'') w
      else if vectors = None then throw (invalid_argument ''Vectors pointer cannot be null'') w
      else if n = 0 then throw (invalid_argument ''Number of training vectors must be positive'') w
      else with_index w (\<lambda>b.
        let (thrown, b') = faiss_train F b n (the vectors) in
        (case thrown of Some msg \<Rightarrow> Inl (other_exception msg) | None \<Rightarrow> Inr (),
         w\<lparr>index_w := Some b'\<rparr>, [Backend (mutex_w w)])))"

text \<open>
  The \<open>dynamic_cast\<close> of a null \<open>index\_\<close> is null, so \<open>SetNprobe\<close> does nothing there.
\<close>

definition SetNprobe :: "'b faiss \<Rightarrow> 'b FaissIndexWrapper \<Rightarrow> cint \<Rightarrow> ('b, unit) call" where
  "SetNprobe F w nprobe = locked w
     (if disposed_w w then throw (runtime_error ''Index has been disposed'') w
      else (case index_w w of
        None \<Rightarrow> (Inr (), w, [])
      | Some b \<Rightarrow> (Inr (), w\<lparr>index_w := Some (faiss_set_nprobe F b nprobe)\<rparr>, [Backend (mutex_w w)])))"

definition IsTrained :: "'b faiss \<Rightarrow> 'b FaissIndexWrapper \<Rightarrow> ('b, bool) call" where
  "IsTrained F w = locked w
     (if disposed_w w then (Inr False, w, [])
      else with_index w (\<lambda>b. (Inr (faiss_is_trained F b), w, [Backend (mutex_w w)])))"

definition Dispose :: "'b FaissIndexWrapper \<Rightarrow> ('b, unit) call" where
  "Dispose w = locked w
     (if disposed_w w then (Inr (), w, [])
      else (Inr (), w\<lparr>disposed_w := True, index_w := None\<rparr>, []))"

definition IsDisposed :: "'b FaissIndexWrapper \<Rightarrow> bool \<times> event list" where
  "IsDisposed w = (disposed_w w, [Acquire (mutex_w w), Release (mutex_w w)])"

text \<open>
  \<open>Save\<close> and \<open>Load\<close> go through the file system; the file functions of FAISS write and
  read the bytes of the in-memory ones. \<open>faiss::write_index\<close> opens the file before it
  looks at the index; a path that cannot be opened for writing and a missing file are
  exceptions of the library.
\<close>

definition Save ::
  "'b faiss \<Rightarrow> 'b FaissIndexWrapper \<Rightarrow> string \<Rightarrow> filesystem \<Rightarrow> ('b, unit) call \<times> filesystem" where
  "Save F w filename fs =
     (if disposed_w w then (locked w (throw (runtime_error ''Index has been disposed'') w), fs)
      else if filename = [] then (locked w (throw (invalid_argument ''Filename cannot be empty'') w), fs)
      else if \<not> fs_writable fs filename then
        (locked w (throw (runtime_error (''Failed to save index: could not open '' @ filename
                                          @ '' for writing'')) w), fs)
      else (case index_w w of
        None \<Rightarrow> (locked w (throw null_dereference w), fs)
      | Some b \<Rightarrow>
         (case faiss_write_index F b of
            Inl msg \<Rightarrow>
              (locked w (Inl (runtime_error (''Failed to save index: '' @ msg)), w, [Backend (mutex_w w)]), fs)
          | Inr bytes \<Rightarrow>
              (locked w (Inr (), w, [Backend (mutex_w w)]),
               fs\<lparr>fs_files := (fs_files fs)(filename \<mapsto> bytes)\<rparr>))))"

text \<open>
  The tail shared by \<open>Load\<close> and \<open>FromBuffer\<close>: a wrapper made by the one-argument
  constructor, whose index and dimension are then replaced by the loaded ones. Every
  \<open>std::exception\<close> of the \<open>try\<close> block is rethrown as a \<open>runtime_error\<close> with
  the given prefix.
\<close>

definition wrap_loaded ::
  "'b faiss \<Rightarrow> nat \<Rightarrow> string \<Rightarrow> string + 'b \<Rightarrow> exn + 'b FaissIndexWrapper" where
  "wrap_loaded F m prefix loaded =
     (case loaded of
        Inl msg \<Rightarrow> Inl (runtime_error (prefix @ msg))
      | Inr loaded_index \<Rightarrow>
         (case FaissIndexWrapper1 F m (faiss_d F loaded_index) of
            Inl e \<Rightarrow> (case what e of Some msg \<Rightarrow> Inl (runtime_error (prefix @ msg)) | None \<Rightarrow> Inl e)
          | Inr wrapper \<Rightarrow>
              Inr (wrapper\<lparr>index_w := Some loaded_index, dims_w := faiss_d F loaded_index\<rparr>)))"

definition Load :: "'b faiss \<Rightarrow> nat \<Rightarrow> string \<Rightarrow> filesystem \<Rightarrow> exn + 'b FaissIndexWrapper" where
  "Load F m filename fs =
     (if filename = [] then Inl (invalid_argument ''Filename cannot be empty'')
      else wrap_loaded F m ''Failed to load index: ''
             (case fs_files fs filename of
                None \<Rightarrow> Inl (''could not open '' @ filename @ '' for reading'')
              | Some bytes \<Rightarrow> faiss_read_index F bytes))"

definition ToBuffer :: "'b faiss \<Rightarrow> 'b FaissIndexWrapper \<Rightarrow> ('b, uint8_t list) call" where
  "ToBuffer F w = locked w
     (if disposed_w w then throw (runtime_error ''Index has been disposed'') w
      else with_index w (\<lambda>b.
        (case faiss_write_index F b of
           Inl msg \<Rightarrow> Inl (runtime_error (''Failed to serialize index: '' @ msg))
         | Inr data \<Rightarrow> Inr data,
         w, [Backend (mutex_w w)])))"

definition FromBuffer :: "'b faiss \<Rightarrow> nat \<Rightarrow> uint8_t ptr \<Rightarrow> size_t \<Rightarrow> exn + 'b FaissIndexWrapper" where
  "FromBuffer F m data len =
     (if data = None \<or> len = 0 then Inl (invalid_argument ''Invalid buffer data'')
      else wrap_loaded F m ''Failed to deserialize index: ''
             (faiss_read_index F (take (unat len) (the data))))"

text \<open>
  \<open>MergeFrom\<close> takes \<open>lock1\<close> on its own mutex, then \<open>lock2\<close> on the other wrapper's.
  With \<open>other\<close> the wrapper itself the second \<open>lock_guard\<close> relocks a
  \<open>std::mutex\<close> its thread owns, and the call does not return: \<open>None\<close>.
  \<open>*(other.index_)\<close> is a mutable \<open>faiss::Index&\<close>, so the method returns both
  wrappers.
\<close>

definition MergeFrom ::
  "'b faiss \<Rightarrow> 'b FaissIndexWrapper \<Rightarrow> 'b FaissIndexWrapper
     \<Rightarrow> ((exn + unit) \<times> 'b FaissIndexWrapper \<times> 'b FaissIndexWrapper \<times> event list) option" where
  "MergeFrom F w other =
     (if mutex_w w = mutex_w other then None
      else
        let guards = (\<lambda>ev. [Acquire (mutex_w w), Acquire (mutex_w other)] @ ev
                            @ [Release (mutex_w other), Release (mutex_w w)]) in
        Some
         (if disposed_w w then (Inl (runtime_error ''Index has been disposed''), w, other, guards [])
          else if disposed_w other
            then (Inl (runtime_error ''Cannot merge from disposed index''), w, other, guards [])
          else if dims_w other \<noteq> dims_w w
            then (Inl (invalid_argument ''Merging index must have the same dimensions''), w, other, guards [])
          else (case (index_w w, index_w other) of
             (Some b, Some ob) \<Rightarrow>
               let (thrown, b', ob') = faiss_merge_from F b ob in
               (case thrown of
                  Some msg \<Rightarrow> Inl (runtime_error (''Failed to merge index: '' @ msg))
                | None \<Rightarrow> Inr (),
                w\<lparr>index_w := Some b'\<rparr>, other\<lparr>index_w := Some ob'\<rparr>,
                guards [Backend (mutex_w w), Backend (mutex_w other)])
           | _ \<Rightarrow> (Inl null_dereference, w, other, guards []))))"

definition Reset :: "'b faiss \<Rightarrow> 'b FaissIndexWrapper \<Rightarrow> ('b, unit) call" where
  "Reset F w = locked w
     (if disposed_w w then throw (runtime_error ''Index has been disposed'') w
      else with_index w (\<lambda>b.
        let (thrown, b') = faiss_reset F b in
        (case thrown of
           Some msg \<Rightarrow> Inl (runtime_error (''Failed to reset index: '' @ msg))
         | None \<Rightarrow> Inr (),
         w\<lparr>index_w := Some b'\<rparr>, [Backend (mutex_w w)])))"

text \<open>
  \<open>RangeSearch\<close> returns \<open>total\<close> and the three vectors it fills through its
  reference parameters. The two \<open>resize\<close> calls are inside the \<open>try\<close> block.
\<close>

definition RangeSearch ::
  "'b faiss \<Rightarrow> 'b FaissIndexWrapper \<Rightarrow> float ptr \<Rightarrow> float
     \<Rightarrow> ('b, size_t \<times> float list \<times> idx_t list \<times> size_t list) call" where
  "RangeSearch F w query radius = locked w
     (if disposed_w w then throw (runtime_error ''Index has been disposed'') w
      else if query = None then throw (invalid_argument ''Query pointer cannot be null'') w
      else if float_lt_zero radius then throw (invalid_argument ''Radius must be non-negative'') w
      else with_index w (\<lambda>b.
        if faiss_ntotal F b = 0
          then (Inl (runtime_error ''Cannot search empty index''), w, [Backend (mutex_w w)])
        else
          (case faiss_range_search F b (the query) radius of
             Inl msg \<Rightarrow> Inl (runtime_error (''Failed to range search: '' @ msg))
           | Inr (total', fd, fl) \<Rightarrow>
              (case (vector_resize 4 total' (0 :: float), vector_resize 8 total' (0 :: idx_t)) of
                 (Inr ds, Inr ls) \<Rightarrow>
                   Inr (total', fill ds (unat total') fd, fill ls (unat total') fl, [0, total'])
               | (Inl msg, _) \<Rightarrow> Inl (runtime_error (''Failed to range search: '' @ msg))
               | (_, Inl msg) \<Rightarrow> Inl (runtime_error (''Failed to range search: '' @ msg))),
           w, [Backend (mutex_w w)])))"

section \<open>The asynchronous workers (napi\_bindings.cpp)\<close>

text \<open>
  What reaches JavaScript as a failure: a \<open>Napi::Error\<close>, \<open>Napi::TypeError\<close> or
  \<open>Napi::RangeError\<close> with its message. \<open>Fatal\<close> is the end of the process on a null
  dereference or a division by zero. A worker's \<open>SetError(msg)\<close> is \<open>Error msg\<close>:
  \<open>OnError\<close> rejects the promise with it.
\<close>

datatype napi_error = Error string | TypeError string | RangeError string | Fatal

text \<open>\<open>catch (const std::exception& e)\<close>, in the workers and in the methods alike.\<close>

definition catch_exception :: "exn \<Rightarrow> napi_error" where
  "catch_exception e = (case what e of Some msg \<Rightarrow> Error (''FAISS error: '' @ msg) | None \<Rightarrow> Fatal)"

type_synonym ('b, 'a) execute = "(napi_error + 'a) \<times> 'b FaissIndexWrapper \<times> event list"

text \<open>
  The shape shared by every \<open>Execute\<close>: the disposed check first, then the body inside
  the \<open>try\<close> block.
\<close>

definition try_live :: "'b FaissIndexWrapper \<Rightarrow> ('b, 'a) execute \<Rightarrow> ('b, 'a) execute" where
  "try_live w body =
     (let (disposed, ev) = IsDisposed w in
      if disposed then (Inl (Error ''Index has been disposed''), w, ev)
      else (case body of (r, w', ev') \<Rightarrow> (r, w', ev @ ev')))"

definition caught :: "('b, 'a) call \<Rightarrow> ('b, 'a) execute" where
  "caught m = (case m of (r, w', ev) \<Rightarrow> (case r of Inl e \<Rightarrow> Inl (catch_exception e) | Inr v \<Rightarrow> Inr v, w', ev))"

text \<open>The constructors copy the input: \<open>n * dims\<close>, or \<open>GetDimensions()\<close>, floats.\<close>

definition AddWorker :: "float list \<Rightarrow> size_t \<Rightarrow> cint \<Rightarrow> float list" where
  "AddWorker vectors n dims = take (unat (n * scast dims)) vectors"

definition AddWorker_Execute ::
  "'b faiss \<Rightarrow> 'b FaissIndexWrapper \<Rightarrow> float list \<Rightarrow> size_t \<Rightarrow> ('b, unit) execute" where
  "AddWorker_Execute F w vectors n = try_live w (caught (Add F w (vector_data vectors) n))"

definition TrainWorker :: "float list \<Rightarrow> size_t \<Rightarrow> cint \<Rightarrow> float list" where
  "TrainWorker vectors n dims = take (unat (n * scast dims)) vectors"

definition TrainWorker_Execute ::
  "'b faiss \<Rightarrow> 'b FaissIndexWrapper \<Rightarrow> float list \<Rightarrow> size_t \<Rightarrow> ('b, unit) execute" where
  "TrainWorker_Execute F w vectors n = try_live w (caught (Train F w (vector_data vectors) n))"

definition SearchWorker :: "'b FaissIndexWrapper \<Rightarrow> float list \<Rightarrow> float list" where
  "SearchWorker w query = take (nat (sint (GetDimensions w))) query"

text \<open>
  \<open>resize(actual_k)\<close> converts the \<open>int\<close> to \<open>size_t\<close>; a \<open>std::length_error\<close> of
  \<open>resize\<close> is caught like any other exception.
\<close>

definition SearchWorker_Execute ::
  "'b faiss \<Rightarrow> 'b FaissIndexWrapper \<Rightarrow> float list \<Rightarrow> cint \<Rightarrow> ('b, float list \<times> idx_t list) execute" where
  "SearchWorker_Execute F w query k = try_live w
     (case GetTotalVectors F w of
        (Inl e, w', ev) \<Rightarrow> (Inl (catch_exception e), w', ev)
      | (Inr ntotal, w', ev) \<Rightarrow>
          if ntotal = 0 then (Inl (Error ''Cannot search empty index''), w', ev)
          else
            let actual_k = clamp_k k ntotal in
            (case (vector_resize 4 (scast actual_k) (0 :: float),
                   vector_resize 8 (scast actual_k) (0 :: idx_t)) of
               (Inr distances, Inr labels) \<Rightarrow>
                 (case caught (Search F w' (vector_data query) actual_k
                                 (vector_data distances) (vector_data labels)) of
                    (r, w'', ev') \<Rightarrow> (r, w'', ev @ ev'))
             | (Inl msg, _) \<Rightarrow> (Inl (Error (''FAISS error: '' @ msg)), w', ev)
             | (_, Inl msg) \<Rightarrow> (Inl (Error (''FAISS error: '' @ msg)), w', ev)))"

text \<open>\<open>OnOK\<close>: the distances as they are, each label through \<open>static_cast<int32_t>\<close>.\<close>

record search_result =
  result_distances :: "float list"
  result_labels :: "cint list"

definition SearchWorker_OnOK :: "float list \<times> idx_t list \<Rightarrow> search_result" where
  "SearchWorker_OnOK r = \<lparr>result_distances = fst r, result_labels = map static_cast_int32 (snd r)\<rparr>"

definition RangeSearchWorker :: "'b FaissIndexWrapper \<Rightarrow> float list \<Rightarrow> float list" where
  "RangeSearchWorker w query = take (nat (sint (GetDimensions w))) query"

definition RangeSearchWorker_Execute ::
  "'b faiss \<Rightarrow> 'b FaissIndexWrapper \<Rightarrow> float list \<Rightarrow> float
     \<Rightarrow> ('b, float list \<times> idx_t list \<times> size_t list) execute" where
  "RangeSearchWorker_Execute F w query radius = try_live w
     (case GetTotalVectors F w of
        (Inl e, w', ev) \<Rightarrow> (Inl (catch_exception e), w', ev)
      | (Inr ntotal, w', ev) \<Rightarrow>
          if ntotal = 0 then (Inl (Error ''Cannot search empty index''), w', ev)
          else (case caught (RangeSearch F w' (vector_data query) radius) of
                  (r, w'', ev') \<Rightarrow> (map_sum id snd r, w'', ev @ ev')))"

record range_search_result =
  range_distances :: "float list"
  range_labels :: "cint list"
  range_nq :: nat
  range_lims :: "32 word list"

definition RangeSearchWorker_OnOK :: "float list \<times> idx_t list \<times> size_t list \<Rightarrow> range_search_result" where
  "RangeSearchWorker_OnOK r =
     (case r of (distances', labels', lims) \<Rightarrow>
        \<lparr>range_distances = distances', range_labels = map static_cast_int32 labels', range_nq = 1,
         range_lims = map ucast lims\<rparr>)"

definition SearchBatchWorker :: "'b FaissIndexWrapper \<Rightarrow> float list \<Rightarrow> size_t \<Rightarrow> float list" where
  "SearchBatchWorker w queries nq = take (unat (nq * scast (GetDimensions w))) queries"

definition SearchBatchWorker_Execute ::
  "'b faiss \<Rightarrow> 'b FaissIndexWrapper \<Rightarrow> float list \<Rightarrow> size_t \<Rightarrow> cint
     \<Rightarrow> ('b, float list \<times> idx_t list) execute" where
  "SearchBatchWorker_Execute F w queries nq k = try_live w
     (case GetTotalVectors F w of
        (Inl e, w', ev) \<Rightarrow> (Inl (catch_exception e), w', ev)
      | (Inr ntotal, w', ev) \<Rightarrow>
          if ntotal = 0 then (Inl (Error ''Cannot search empty index''), w', ev)
          else
            let actual_k = clamp_k k ntotal in
            (case (vector_resize 4 (nq * scast actual_k) (0 :: float),
                   vector_resize 8 (nq * scast actual_k) (0 :: idx_t)) of
               (Inr distances, Inr labels) \<Rightarrow>
                 (case caught (SearchBatch F w' (vector_data queries) nq actual_k
                                 (vector_data distances) (vector_data labels)) of
                    (r, w'', ev') \<Rightarrow> (r, w'', ev @ ev'))
             | (Inl msg, _) \<Rightarrow> (Inl (Error (''FAISS error: '' @ msg)), w', ev)
             | (_, Inl msg) \<Rightarrow> (Inl (Error (''FAISS error: '' @ msg)), w', ev)))"

record search_batch_result =
  batch_distances :: "float list"
  batch_labels :: "cint list"
  batch_nq :: size_t
  batch_k :: cint

definition SearchBatchWorker_OnOK :: "size_t \<Rightarrow> float list \<times> idx_t list \<Rightarrow> search_batch_result" where
  "SearchBatchWorker_OnOK nq r =
     \<lparr>batch_distances = fst r, batch_labels = map static_cast_int32 (snd r), batch_nq = nq,
      batch_k = ucast ((of_nat (length (fst r)) :: size_t) div nq)\<rparr>"

definition SaveWorker_Execute ::
  "'b faiss \<Rightarrow> 'b FaissIndexWrapper \<Rightarrow> string \<Rightarrow> filesystem \<Rightarrow> ('b, unit) execute \<times> filesystem" where
  "SaveWorker_Execute F w filename fs =
     (if fst (IsDisposed w) then (try_live w (Inl Fatal, w, []), fs)
      else (case Save F w filename fs of (m, fs') \<Rightarrow> (try_live w (caught m), fs')))"

definition ToBufferWorker_Execute :: "'b faiss \<Rightarrow> 'b FaissIndexWrapper \<Rightarrow> ('b, uint8_t list) execute" where
  "ToBufferWorker_Execute F w = try_live w (caught (ToBuffer F w))"

text \<open>
  The merge worker checks the target, then the source, then merges; it returns both
  wrappers. \<open>None\<close> is the call that does not return.
\<close>

definition MergeFromWorker_Execute ::
  "'b faiss \<Rightarrow> 'b FaissIndexWrapper \<Rightarrow> 'b FaissIndexWrapper
     \<Rightarrow> ((napi_error + unit) \<times> 'b FaissIndexWrapper \<times> 'b FaissIndexWrapper \<times> event list) option" where
  "MergeFromWorker_Execute F target source =
     (let (target_disposed, ev1) = IsDisposed target in
      if target_disposed then Some (Inl (Error ''Target index has been disposed''), target, source, ev1)
      else
        let (source_disposed, ev2) = IsDisposed source in
        if source_disposed
          then Some (Inl (Error ''Source index has been disposed''), target, source, ev1 @ ev2)
        else (case MergeFrom F target source of
                None \<Rightarrow> None
              | Some (r, target', source', ev3) \<Rightarrow>
                  Some (case r of Inl e \<Rightarrow> Inl (catch_exception e) | Inr u \<Rightarrow> Inr u,
                        target', source', ev1 @ ev2 @ ev3)))"


section \<open>FaissIndexWrapperJS (napi\_bindings.cpp)\<close>

record 'b FaissIndexWrapperJS =
  wrapper_js :: "'b FaissIndexWrapper option"
  dims_js :: cint

text \<open>
  The JavaScript values the methods tell apart. A number is what the sources read from
  it: its \<open>Int32Value()\<close> and its \<open>FloatValue()\<close>. An object has its properties and,
  when it wraps a \<open>FaissIndexWrapperJS\<close>, that instance. Typed arrays and buffers are
  objects too; a typed array of another element type is the bytes it holds.
\<close>

datatype 'b napi_value =
    JSUndefined
  | JSNumber cint float
  | JSString string
  | Float32Array "float list"
  | OtherTypedArray "uint8_t list"
  | Buffer "uint8_t list"
  | Object "(string \<times> 'b napi_value) list" "'b FaissIndexWrapperJS option"

fun IsNumber :: "'b napi_value \<Rightarrow> bool" where
  "IsNumber (JSNumber i f) = True"
| "IsNumber v = False"

fun IsString :: "'b napi_value \<Rightarrow> bool" where
  "IsString (JSString s) = True"
| "IsString v = False"

fun IsTypedArray :: "'b napi_value \<Rightarrow> bool" where
  "IsTypedArray (Float32Array a) = True"
| "IsTypedArray (OtherTypedArray b) = True"
| "IsTypedArray (Buffer b) = True"
| "IsTypedArray v = False"

fun IsObject :: "'b napi_value \<Rightarrow> bool" where
  "IsObject (Object props wrapped) = True"
| "IsObject v = IsTypedArray v"

fun Int32Value :: "'b napi_value \<Rightarrow> cint" where
  "Int32Value (JSNumber i f) = i"
| "Int32Value v = 0"

fun FloatValue :: "'b napi_value \<Rightarrow> float" where
  "FloatValue (JSNumber i f) = f"
| "FloatValue v = 0"

fun Utf8Value :: "'b napi_value \<Rightarrow> string" where
  "Utf8Value (JSString s) = s"
| "Utf8Value v = []"

fun Get :: "'b napi_value \<Rightarrow> string \<Rightarrow> 'b napi_value" where
  "Get (Object props wrapped) key = (case map_of props key of Some v \<Rightarrow> v | None \<Rightarrow> JSUndefined)"
| "Get v key = JSUndefined"

fun Has :: "'b napi_value \<Rightarrow> string \<Rightarrow> bool" where
  "Has (Object props wrapped) key = (map_of props key \<noteq> None)"
| "Has v key = False"

text \<open>
  \<open>IsBuffer()\<close> holds of a Node buffer and of every typed array. \<open>Buffer_Data\<close> is
  what \<open>Napi::Buffer<uint8_t>\<close> then sees of the value: its bytes, \<open>Length()\<close> of
  them.
\<close>

fun IsBuffer :: "'b napi_value \<Rightarrow> bool" where
  "IsBuffer (Buffer b) = True"
| "IsBuffer (Float32Array a) = True"
| "IsBuffer (OtherTypedArray b) = True"
| "IsBuffer v = False"

fun Buffer_Data :: "'b napi_value \<Rightarrow> uint8_t list" where
  "Buffer_Data (Buffer b) = b"
| "Buffer_Data (Float32Array a) = concat (map le32 a)"
| "Buffer_Data (OtherTypedArray b) = b"
| "Buffer_Data v = []"

text \<open>\<open>Napi::ObjectWrap::Unwrap\<close>: the wrapped instance, or the error of \<open>napi_unwrap\<close>.\<close>

fun Unwrap :: "'b napi_value \<Rightarrow> napi_error + 'b FaissIndexWrapperJS" where
  "Unwrap (Object props (Some instance)) = Inr instance"
| "Unwrap v = Inl (Error ''Invalid argument'')"

text \<open>
  The constructor. \<open>m\<close> is the identity of the mutex of the new wrapper. The three
  \<open>catch\<close> clauses rethrow a \<open>Napi::Error\<close> and turn a \<open>std::exception\<close> into
  \<open>FAISS error: ...\<close>.
\<close>

definition index_type :: "'b napi_value \<Rightarrow> napi_error + string \<times> cint" where
  "index_type config =
     (if Has config ''type'' \<and> IsString (Get config ''type'') then
        let type = Utf8Value (Get config ''type'') in
        if type = ''FLAT_L2'' then Inr (''Flat'', 1)
        else if type = ''FLAT_IP'' then Inr (''Flat'', 0)
        else if type = ''IVF_FLAT'' then
          let nlist = (if Has config ''nlist'' \<and> IsNumber (Get config ''nlist'')
                       then Int32Value (Get config ''nlist'') else 100) in
          Inr (''IVF'' @ to_string_int (sint nlist) @ '',Flat'', 1)
        else if type = ''HNSW'' then
          let M = (if Has config ''M'' \<and> IsNumber (Get config ''M'')
                   then Int32Value (Get config ''M'') else 16) in
          Inr (''HNSW'' @ to_string_int (sint M), 1)
        else Inl (TypeError (''Unsupported index type: '' @ type
                    @ ''. Supported: FLAT_L2, FLAT_IP, IVF_FLAT, HNSW''))
      else Inr (''Flat'', 1))"

definition FaissIndexWrapperJS ::
  "'b faiss \<Rightarrow> nat \<Rightarrow> 'b napi_value list \<Rightarrow> napi_error + 'b FaissIndexWrapperJS" where
  "FaissIndexWrapperJS F m info =
     (if length info < 1 then Inl (TypeError ''Expected 1 argument: { dims: number }'')
      else if \<not> IsObject (info ! 0) then Inl (TypeError ''Expected object with 'dims' property'')
      else
        let config = info ! 0 in
        if \<not> Has config ''dims'' \<or> \<not> IsNumber (Get config ''dims'')
          then Inl (TypeError ''Config must have 'dims' as a number'')
        else
          let dims = Int32Value (Get config ''dims'') in
          if sint dims \<le> 0 then Inl (RangeError ''Dimensions must be positive'')
          else (case index_type config of
             Inl e \<Rightarrow> Inl e
           | Inr (indexDescription, metric) \<Rightarrow>
              (case FaissIndexWrapper F m dims indexDescription metric of
                 Inl e \<Rightarrow> Inl (catch_exception e)
               | Inr wrapper \<Rightarrow>
                  if Has config ''nprobe'' \<and> IsNumber (Get config ''nprobe'') then
                    (case SetNprobe F wrapper (Int32Value (Get config ''nprobe'')) of
                       (Inl e, w', ev) \<Rightarrow> Inl (catch_exception e)
                     | (Inr u, w', ev) \<Rightarrow> Inr \<lparr>wrapper_js = Some w', dims_js = dims\<rparr>)
                  else Inr \<lparr>wrapper_js = Some wrapper, dims_js = dims\<rparr>)))"

definition ValidateNotDisposed :: "'b FaissIndexWrapperJS \<Rightarrow> napi_error option \<times> event list" where
  "ValidateNotDisposed h =
     (case wrapper_js h of
        None \<Rightarrow> (Some (Error ''Index has been disposed''), [])
      | Some w \<Rightarrow>
          let (disposed, ev) = IsDisposed w in
          (if disposed then Some (Error ''Index has been disposed'') else None, ev))"

text \<open>
  A method that queues a worker returns what the worker's constructor captured, or
  the error it throws, with the events of its own checks. \<open>validated\<close> is the call of
  \<open>ValidateNotDisposed\<close> that opens every method.
\<close>

definition validated ::
  "'b FaissIndexWrapperJS \<Rightarrow> (napi_error + 'a) \<Rightarrow> (napi_error + 'a) \<times> event list" where
  "validated h rest =
     (case ValidateNotDisposed h of
        (Some e, ev) \<Rightarrow> (Inl e, ev)
      | (None, ev) \<Rightarrow> (rest, ev))"

text \<open>
  The dimension check of \<open>Add\<close>, \<open>Train\<close> and \<open>SearchBatch\<close>: \<open>length % dims_\<close> in
  \<open>size_t\<close>, a division by zero when \<open>dims_\<close> is zero; then \<open>n = length / dims_\<close>.
\<close>

definition multiple_of_dims ::
  "string \<Rightarrow> size_t \<Rightarrow> cint \<Rightarrow> napi_error + size_t" where
  "multiple_of_dims msg len dims =
     (if dims = 0 then Inl Fatal
      else if len mod scast dims \<noteq> 0 then
        Inl (RangeError (msg @ to_string_nat (unat len) @ '', expected multiple of ''
                          @ to_string_int (sint dims)))
      else Inr (len div scast dims))"

definition JS_Add :: "'b FaissIndexWrapperJS \<Rightarrow> 'b napi_value list \<Rightarrow> (napi_error + float list \<times> size_t) \<times> event list" where
  "JS_Add h info = validated h
     (if length info < 1 then Inl (TypeError ''Expected at least 1 argument: vectors (Float32Array)'')
      else (case info ! 0 of
         Float32Array floatArr \<Rightarrow>
           (case multiple_of_dims ''Vector length must be a multiple of dimensions. Got ''
                   (of_nat (length floatArr)) (dims_js h) of
              Inl e \<Rightarrow> Inl e
            | Inr n \<Rightarrow> Inr (AddWorker floatArr n (dims_js h), n))
       | _ \<Rightarrow> Inl (TypeError ''Expected Float32Array'')))"

definition JS_Train :: "'b FaissIndexWrapperJS \<Rightarrow> 'b napi_value list \<Rightarrow> (napi_error + float list \<times> size_t) \<times> event list" where
  "JS_Train h info = validated h
     (if length info < 1 then Inl (TypeError ''Expected 1 argument: vectors (Float32Array)'')
      else (case info ! 0 of
         Float32Array floatArr \<Rightarrow>
           (case multiple_of_dims ''Vector length must be a multiple of dimensions. Got ''
                   (of_nat (length floatArr)) (dims_js h) of
              Inl e \<Rightarrow> Inl e
            | Inr n \<Rightarrow> Inr (TrainWorker floatArr n (dims_js h), n))
       | _ \<Rightarrow> Inl (TypeError ''Expected Float32Array'')))"

text \<open>\<open>SetNprobe\<close>, \<open>Reset\<close>, \<open>GetStats\<close> and \<open>Dispose\<close> run on the calling thread.\<close>

type_synonym ('b, 'a) js_call = "(napi_error + 'a) \<times> 'b FaissIndexWrapperJS \<times> event list"

definition on_wrapper ::
  "'b FaissIndexWrapperJS \<Rightarrow> event list \<Rightarrow> ('b FaissIndexWrapper \<Rightarrow> ('b, 'a) call) \<Rightarrow> ('b, 'a) js_call" where
  "on_wrapper h ev f =
     (case wrapper_js h of
        None \<Rightarrow> (Inl Fatal, h, ev)
      | Some w \<Rightarrow>
         (case f w of (r, w', ev') \<Rightarrow>
            (case r of Inl e \<Rightarrow> Inl (catch_exception e) | Inr v \<Rightarrow> Inr v,
             h\<lparr>wrapper_js := Some w'\<rparr>, ev @ ev')))"

definition JS_SetNprobe :: "'b faiss \<Rightarrow> 'b FaissIndexWrapperJS \<Rightarrow> 'b napi_value list \<Rightarrow> ('b, unit) js_call" where
  "JS_SetNprobe F h info =
     (case ValidateNotDisposed h of
        (Some e, ev) \<Rightarrow> (Inl e, h, ev)
      | (None, ev) \<Rightarrow>
          if length info < 1 then (Inl (TypeError ''Expected 1 argument: nprobe (number)''), h, ev)
          else if \<not> IsNumber (info ! 0) then (Inl (TypeError ''Expected number for nprobe''), h, ev)
          else if sint (Int32Value (info ! 0)) \<le> 0 then (Inl (RangeError ''nprobe must be positive''), h, ev)
          else on_wrapper h ev (\<lambda>w. SetNprobe F w (Int32Value (info ! 0))))"

definition JS_Search :: "'b FaissIndexWrapperJS \<Rightarrow> 'b napi_value list \<Rightarrow> (napi_error + float list \<times> cint) \<times> event list" where
  "JS_Search h info = validated h
     (if length info < 2 then Inl (TypeError ''Expected 2 arguments: query (Float32Array), k (number)'')
      else if \<not> IsTypedArray (info ! 0) then Inl (TypeError ''Expected Float32Array for query'')
      else if \<not> IsNumber (info ! 1) then Inl (TypeError ''Expected number for k'')
      else (case info ! 0 of
         Float32Array queryArr \<Rightarrow>
           let k = Int32Value (info ! 1) in
           if (ucast (of_nat (length queryArr) :: size_t) :: cint) \<noteq> dims_js h then
             Inl (RangeError (''Query vector length must match index dimensions. Got ''
                    @ to_string_nat (unat (of_nat (length queryArr) :: size_t)) @ '', expected ''
                    @ to_string_int (sint (dims_js h))))
           else if sint k \<le> 0 then Inl (RangeError ''k must be positive'')
           else Inr (queryArr, k)
       | _ \<Rightarrow> Inl (TypeError ''Expected Float32Array for query'')))"

definition JS_SearchBatch ::
  "'b FaissIndexWrapperJS \<Rightarrow> 'b napi_value list \<Rightarrow> (napi_error + float list \<times> size_t \<times> cint) \<times> event list" where
  "JS_SearchBatch h info = validated h
     (if length info < 2 then Inl (TypeError ''Expected 2 arguments: queries (Float32Array), k (number)'')
      else if \<not> IsTypedArray (info ! 0) then Inl (TypeError ''Expected Float32Array for queries'')
      else if \<not> IsNumber (info ! 1) then Inl (TypeError ''Expected number for k'')
      else (case info ! 0 of
         Float32Array queriesArr \<Rightarrow>
           let totalElements = (of_nat (length queriesArr) :: size_t); k = Int32Value (info ! 1) in
           if totalElements = 0 then Inl (RangeError ''Queries array cannot be empty'')
           else (case multiple_of_dims
                        ''Queries array length must be a multiple of index dimensions. Got ''
                        totalElements (dims_js h) of
              Inl e \<Rightarrow> Inl e
            | Inr nq \<Rightarrow>
                if sint k \<le> 0 then Inl (RangeError ''k must be positive'')
                else Inr (queriesArr, nq, k))
       | _ \<Rightarrow> Inl (TypeError ''Expected Float32Array for queries'')))"

definition JS_RangeSearch :: "'b FaissIndexWrapperJS \<Rightarrow> 'b napi_value list \<Rightarrow> (napi_error + float list \<times> float) \<times> event list" where
  "JS_RangeSearch h info = validated h
     (if length info < 2 then Inl (TypeError ''Expected 2 arguments: query (Float32Array), radius (number)'')
      else if \<not> IsTypedArray (info ! 0) then Inl (TypeError ''Expected Float32Array for query'')
      else if \<not> IsNumber (info ! 1) then Inl (TypeError ''Expected number for radius'')
      else (case info ! 0 of
         Float32Array queryArr \<Rightarrow>
           let radius = FloatValue (info ! 1) in
           if (ucast (of_nat (length queryArr) :: size_t) :: cint) \<noteq> dims_js h then
             Inl (RangeError (''Query vector length must match index dimensions. Got ''
                    @ to_string_nat (unat (of_nat (length queryArr) :: size_t)) @ '', expected ''
                    @ to_string_int (sint (dims_js h))))
           else if float_lt_zero radius then Inl (RangeError ''Radius must be non-negative'')
           else Inr (queryArr, radius)
       | _ \<Rightarrow> Inl (TypeError ''Expected Float32Array for query'')))"

record stats =
  stats_ntotal :: size_t
  stats_dims :: cint
  stats_isTrained :: bool
  stats_type :: string

definition JS_GetStats :: "'b faiss \<Rightarrow> 'b FaissIndexWrapperJS \<Rightarrow> (napi_error + stats) \<times> event list" where
  "JS_GetStats F h =
     (case ValidateNotDisposed h of
        (Some e, ev) \<Rightarrow> (Inl e, ev)
      | (None, ev) \<Rightarrow>
         (case wrapper_js h of
            None \<Rightarrow> (Inl Fatal, ev)
          | Some w \<Rightarrow>
             (case (GetTotalVectors F w, IsTrained F w) of
                ((Inr ntotal, w1, ev1), (Inr trained, w2, ev2)) \<Rightarrow>
                  (Inr \<lparr>stats_ntotal = ntotal, stats_dims = GetDimensions w,
                        stats_isTrained = trained, stats_type = ''FLAT_L2''\<rparr>, ev @ ev1 @ ev2)
              | ((Inl e, w1, ev1), _) \<Rightarrow> (Inl (catch_exception e), ev @ ev1)
              | ((Inr ntotal, w1, ev1), (Inl e, w2, ev2)) \<Rightarrow> (Inl (catch_exception e), ev @ ev1 @ ev2))))"

definition JS_Dispose :: "'b FaissIndexWrapperJS \<Rightarrow> ('b, unit) js_call" where
  "JS_Dispose h =
     (case wrapper_js h of
        None \<Rightarrow> (Inr (), h, [])
      | Some w \<Rightarrow>
          let (disposed, ev) = IsDisposed w in
          if disposed then (Inr (), h, ev)
          else (case Dispose w of (r, w', ev') \<Rightarrow> (Inr (), h\<lparr>wrapper_js := Some w'\<rparr>, ev @ ev')))"

definition JS_Reset :: "'b faiss \<Rightarrow> 'b FaissIndexWrapperJS \<Rightarrow> ('b, unit) js_call" where
  "JS_Reset F h =
     (case ValidateNotDisposed h of
        (Some e, ev) \<Rightarrow> (Inl e, h, ev)
      | (None, ev) \<Rightarrow> on_wrapper h ev (Reset F))"

definition JS_Save :: "'b FaissIndexWrapperJS \<Rightarrow> 'b napi_value list \<Rightarrow> (napi_error + string) \<times> event list" where
  "JS_Save h info = validated h
     (if length info < 1 then Inl (TypeError ''Expected 1 argument: filename (string)'')
      else if \<not> IsString (info ! 0) then Inl (TypeError ''Expected string for filename'')
      else Inr (Utf8Value (info ! 0)))"

definition JS_ToBuffer :: "'b FaissIndexWrapperJS \<Rightarrow> (napi_error + unit) \<times> event list" where
  "JS_ToBuffer h = validated h (Inr ())"

text \<open>
  \<open>MergeFrom\<close> returns the other instance, whose wrapper the worker receives. The
  disposed check of the other wrapper adds its events.
\<close>

definition JS_MergeFrom ::
  "'b FaissIndexWrapperJS \<Rightarrow> 'b napi_value list \<Rightarrow> (napi_error + 'b FaissIndexWrapperJS) \<times> event list" where
  "JS_MergeFrom h info =
     (case ValidateNotDisposed h of
        (Some e, ev) \<Rightarrow> (Inl e, ev)
      | (None, ev) \<Rightarrow>
          if length info < 1 then (Inl (TypeError ''Expected 1 argument: otherIndex (FaissIndex)''), ev)
          else if \<not> IsObject (info ! 0) then (Inl (TypeError ''Expected FaissIndex object''), ev)
          else (case Unwrap (info ! 0) of
             Inl e \<Rightarrow> (Inl e, ev)
           | Inr otherInstance \<Rightarrow>
              (case wrapper_js otherInstance of
                 None \<Rightarrow> (Inl (Error ''Invalid index object''), ev)
               | Some ow \<Rightarrow>
                   let (disposed, ev') = IsDisposed ow in
                   if disposed then (Inl (Error ''Cannot merge from disposed index''), ev @ ev')
                   else (Inr otherInstance, ev @ ev'))))"

text \<open>
  \<open>Load\<close> and \<open>FromBuffer\<close> make a new instance through the constructor with a config
  of \<open>dims\<close> alone, then replace its wrapper by the loaded one. \<open>m\<close> is the mutex of
  the loaded wrapper, \<open>m'\<close> that of the wrapper the constructor makes.
\<close>

definition adopt ::
  "'b faiss \<Rightarrow> nat \<Rightarrow> exn + 'b FaissIndexWrapper \<Rightarrow> napi_error + 'b FaissIndexWrapperJS" where
  "adopt F m' loaded =
     (case loaded of
        Inl e \<Rightarrow> Inl (catch_exception e)
      | Inr loaded_wrapper \<Rightarrow>
          let dims = GetDimensions loaded_wrapper in
          (case FaissIndexWrapperJS F m' [Object [(''dims'', JSNumber dims 0)] None] of
             Inl e \<Rightarrow> Inl e
           | Inr instance \<Rightarrow> Inr (instance\<lparr>wrapper_js := Some loaded_wrapper, dims_js := dims\<rparr>)))"

definition JS_Load ::
  "'b faiss \<Rightarrow> nat \<Rightarrow> nat \<Rightarrow> filesystem \<Rightarrow> 'b napi_value list \<Rightarrow> napi_error + 'b FaissIndexWrapperJS" where
  "JS_Load F m m' fs info =
     (if length info < 1 then Inl (TypeError ''Expected 1 argument: filename (string)'')
      else if \<not> IsString (info ! 0) then Inl (TypeError ''Expected string for filename'')
      else adopt F m' (Load F m (Utf8Value (info ! 0)) fs))"

definition JS_FromBuffer ::
  "'b faiss \<Rightarrow> nat \<Rightarrow> nat \<Rightarrow> 'b napi_value list \<Rightarrow> napi_error + 'b FaissIndexWrapperJS" where
  "JS_FromBuffer F m m' info =
     (if length info < 1 then Inl (TypeError ''Expected 1 argument: buffer (Buffer)'')
      else if \<not> IsBuffer (info ! 0) then Inl (TypeError ''Expected Buffer'')
      else
        let buffer = Buffer_Data (info ! 0) in
        adopt F m' (FromBuffer F m (Some buffer) (of_nat (length buffer))))"

section \<open>The operations as JavaScript sees them\<close>

text \<open>
  A call either throws on the calling thread, or returns a promise that the worker
  settles: \<open>OnError\<close> rejects it with the message of \<open>SetError\<close>, \<open>OnOK\<close> fulfils it.
  The operations below run the worker that a method queues to completion, with no other
  operation on the wrapper in between. They are named as \<open>Init\<close> exports them.
\<close>

datatype 'a outcome = Thrown napi_error | Rejected napi_error | Fulfilled 'a

type_synonym ('b, 'a) operation = "'a outcome \<times> 'b FaissIndexWrapperJS \<times> event list"

definition queue ::
  "'b FaissIndexWrapperJS \<Rightarrow> event list \<Rightarrow> ('b FaissIndexWrapper \<Rightarrow> ('b, 'a) execute) \<Rightarrow> ('a \<Rightarrow> 'c)
     \<Rightarrow> ('b, 'c) operation" where
  "queue h ev Execute OnOK =
     (case wrapper_js h of
        None \<Rightarrow> (Thrown Fatal, h, ev)
      | Some w \<Rightarrow>
         (case Execute w of (r, w', ev') \<Rightarrow>
            (case r of Inl e \<Rightarrow> Rejected e | Inr v \<Rightarrow> Fulfilled (OnOK v),
             h\<lparr>wrapper_js := Some w'\<rparr>, ev @ ev')))"

definition add :: "'b faiss \<Rightarrow> 'b FaissIndexWrapperJS \<Rightarrow> 'b napi_value list \<Rightarrow> ('b, unit) operation" where
  "add F h info =
     (case JS_Add h info of
        (Inl e, ev) \<Rightarrow> (Thrown e, h, ev)
      | (Inr (vectors, n), ev) \<Rightarrow> queue h ev (\<lambda>w. AddWorker_Execute F w vectors n) id)"

definition train :: "'b faiss \<Rightarrow> 'b FaissIndexWrapperJS \<Rightarrow> 'b napi_value list \<Rightarrow> ('b, unit) operation" where
  "train F h info =
     (case JS_Train h info of
        (Inl e, ev) \<Rightarrow> (Thrown e, h, ev)
      | (Inr (vectors, n), ev) \<Rightarrow> queue h ev (\<lambda>w. TrainWorker_Execute F w vectors n) id)"

definition search ::
  "'b faiss \<Rightarrow> 'b FaissIndexWrapperJS \<Rightarrow> 'b napi_value list \<Rightarrow> ('b, search_result) operation" where
  "search F h info =
     (case JS_Search h info of
        (Inl e, ev) \<Rightarrow> (Thrown e, h, ev)
      | (Inr (query, k), ev) \<Rightarrow>
          queue h ev (\<lambda>w. SearchWorker_Execute F w (SearchWorker w query) k) SearchWorker_OnOK)"

definition searchBatch ::
  "'b faiss \<Rightarrow> 'b FaissIndexWrapperJS \<Rightarrow> 'b napi_value list \<Rightarrow> ('b, search_batch_result) operation" where
  "searchBatch F h info =
     (case JS_SearchBatch h info of
        (Inl e, ev) \<Rightarrow> (Thrown e, h, ev)
      | (Inr (queries, nq, k), ev) \<Rightarrow>
          queue h ev (\<lambda>w. SearchBatchWorker_Execute F w (SearchBatchWorker w queries nq) nq k)
            (SearchBatchWorker_OnOK nq))"

definition rangeSearch ::
  "'b faiss \<Rightarrow> 'b FaissIndexWrapperJS \<Rightarrow> 'b napi_value list \<Rightarrow> ('b, range_search_result) operation" where
  "rangeSearch F h info =
     (case JS_RangeSearch h info of
        (Inl e, ev) \<Rightarrow> (Thrown e, h, ev)
      | (Inr (query, radius), ev) \<Rightarrow>
          queue h ev (\<lambda>w. RangeSearchWorker_Execute F w (RangeSearchWorker w query) radius)
            RangeSearchWorker_OnOK)"

definition save ::
  "'b faiss \<Rightarrow> 'b FaissIndexWrapperJS \<Rightarrow> 'b napi_value list \<Rightarrow> filesystem
     \<Rightarrow> ('b, unit) operation \<times> filesystem" where
  "save F h info fs =
     (case JS_Save h info of
        (Inl e, ev) \<Rightarrow> ((Thrown e, h, ev), fs)
      | (Inr filename, ev) \<Rightarrow>
         (case wrapper_js h of
            None \<Rightarrow> ((Thrown Fatal, h, ev), fs)
          | Some w \<Rightarrow>
              (queue h ev (\<lambda>w. fst (SaveWorker_Execute F w filename fs)) id,
               snd (SaveWorker_Execute F w filename fs))))"

definition toBuffer :: "'b faiss \<Rightarrow> 'b FaissIndexWrapperJS \<Rightarrow> ('b, uint8_t list) operation" where
  "toBuffer F h =
     (case JS_ToBuffer h of
        (Inl e, ev) \<Rightarrow> (Thrown e, h, ev)
      | (Inr u, ev) \<Rightarrow> queue h ev (ToBufferWorker_Execute F) id)"

text \<open>
  \<open>mergeFrom\<close> also returns the other instance once the worker ran on it; \<open>None\<close> is
  the merge that does not return.
\<close>

definition mergeFrom ::
  "'b faiss \<Rightarrow> 'b FaissIndexWrapperJS \<Rightarrow> 'b napi_value list
     \<Rightarrow> (('b, unit) operation \<times> 'b FaissIndexWrapperJS option) option" where
  "mergeFrom F h info =
     (case JS_MergeFrom h info of
        (Inl e, ev) \<Rightarrow> Some ((Thrown e, h, ev), None)
      | (Inr otherInstance, ev) \<Rightarrow>
         (case (wrapper_js h, wrapper_js otherInstance) of
            (Some target, Some source) \<Rightarrow>
              (case MergeFromWorker_Execute F target source of
                 None \<Rightarrow> None
               | Some (r, target', source', ev') \<Rightarrow>
                   Some ((case r of Inl e \<Rightarrow> Rejected e | Inr u \<Rightarrow> Fulfilled u,
                          h\<lparr>wrapper_js := Some target'\<rparr>, ev @ ev'),
                         Some (otherInstance\<lparr>wrapper_js := Some source'\<rparr>)))
          | _ \<Rightarrow> Some ((Thrown Fatal, h, ev), None)))"

definition setNprobe :: "'b faiss \<Rightarrow> 'b FaissIndexWrapperJS \<Rightarrow> 'b napi_value list \<Rightarrow> ('b, unit) operation" where
  "setNprobe F h info =
     (case JS_SetNprobe F h info of (r, h', ev) \<Rightarrow>
        (case r of Inl e \<Rightarrow> Thrown e | Inr u \<Rightarrow> Fulfilled u, h', ev))"

definition reset :: "'b faiss \<Rightarrow> 'b FaissIndexWrapperJS \<Rightarrow> ('b, unit) operation" where
  "reset F h =
     (case JS_Reset F h of (r, h', ev) \<Rightarrow>
        (case r of Inl e \<Rightarrow> Thrown e | Inr u \<Rightarrow> Fulfilled u, h', ev))"

definition getStats :: "'b faiss \<Rightarrow> 'b FaissIndexWrapperJS \<Rightarrow> ('b, stats) operation" where
  "getStats F h =
     (case JS_GetStats F h of (r, ev) \<Rightarrow>
        (case r of Inl e \<Rightarrow> Thrown e | Inr s \<Rightarrow> Fulfilled s, h, ev))"

definition dispose :: "'b FaissIndexWrapperJS \<Rightarrow> ('b, unit) operation" where
  "dispose h =
     (case JS_Dispose h of (r, h', ev) \<Rightarrow>
        (case r of Inl e \<Rightarrow> Thrown e | Inr u \<Rightarrow> Fulfilled u, h', ev))"

text \<open>A live handle: it has a wrapper that is not disposed and owns an index.\<close>

definition live :: "'b FaissIndexWrapperJS \<Rightarrow> bool" where
  "live h = (case wrapper_js h of
               None \<Rightarrow> False
             | Some w \<Rightarrow> \<not> disposed_w w \<and> index_w w \<noteq> None)"

text \<open>
  A disposed handle: no wrapper, or a wrapper whose \<open>disposed_\<close> flag is set. This is the
  test of \<open>ValidateNotDisposed\<close>. \<open>after_dispose\<close> is the handle that \<open>dispose()\<close>
  leaves.
\<close>

definition disposed_handle :: "'b FaissIndexWrapperJS \<Rightarrow> bool" where
  "disposed_handle h = (case wrapper_js h of None \<Rightarrow> True | Some w \<Rightarrow> disposed_w w)"

definition after_dispose :: "'b FaissIndexWrapperJS \<Rightarrow> 'b FaissIndexWrapperJS" where
  "after_dispose h = fst (snd (dispose h))"

section \<open>A reference instance of the library\<close>

text \<open>
  An instance of the library interface to run the wrapper on: the bookkeeping of the
  flat index of FAISS as the library documents it. \<open>add\<close> appends the vectors,
  \<open>ntotal\<close> counts them, \<open>reset\<close> drops them, and \<open>merge_from\<close> moves the entries of
  the other index into this one (faiss/Index.h: ``moves the entries from another dataset
  to self. On output, other is empty''). The distance computation is left out:
  \<open>search\<close> reports the identifiers \<open>0, 1, ...\<close> of the first \<open>k\<close> stored vectors at
  distance zero. The serialised form is the dimension, the metric and the stored
  floats, four little-endian bytes each.
\<close>

record flat_index =
  flat_d :: cint
  flat_metric :: cint
  flat_codes :: "float list"

fun un_le32 :: "uint8_t list \<Rightarrow> 32 word list" where
  "un_le32 (a # b # c # d # rest) =
     (ucast a OR push_bit 8 (ucast b) OR push_bit 16 (ucast c) OR push_bit 24 (ucast d))
       # un_le32 rest"
| "un_le32 rest = []"

definition flat_write_index :: "flat_index \<Rightarrow> string + uint8_t list" where
  "flat_write_index b = Inr (le32 (flat_d b) @ le32 (flat_metric b) @ concat (map le32 (flat_codes b)))"

definition flat_read_index :: "uint8_t list \<Rightarrow> string + flat_index" where
  "flat_read_index bytes =
     (if length bytes < 8 \<or> length bytes mod 4 \<noteq> 0 then Inl ''read error''
      else (case un_le32 bytes of
              d # metric # codes \<Rightarrow> Inr \<lparr>flat_d = d, flat_metric = metric, flat_codes = codes\<rparr>
            | _ \<Rightarrow> Inl ''read error''))"

definition flat_ntotal :: "flat_index \<Rightarrow> idx_t" where
  "flat_ntotal b = of_nat (length (flat_codes b) div nat (sint (flat_d b)))"

definition flat_merge_from :: "flat_index \<Rightarrow> flat_index \<Rightarrow> string option \<times> flat_index \<times> flat_index" where
  "flat_merge_from b other =
     (if flat_d b \<noteq> flat_d other \<or> flat_metric b \<noteq> flat_metric other
        then (Some ''check_compatible_for_merge failed'', b, other)
      else (None, b\<lparr>flat_codes := flat_codes b @ flat_codes other\<rparr>, other\<lparr>flat_codes := []\<rparr>))"

definition flat :: "flat_index faiss" where
  "flat =
     \<lparr>faiss_index_factory =
        (\<lambda>dims description metric.
           if description = ''Flat''
             then Inr \<lparr>flat_d = dims, flat_metric = metric, flat_codes = []\<rparr>
           else Inl (''could not parse index string '' @ description)),
      faiss_d = flat_d,
      faiss_ntotal = flat_ntotal,
      faiss_is_trained = (\<lambda>b. True),
      faiss_add =
        (\<lambda>b n x. (None, b\<lparr>flat_codes := flat_codes b @ take (unat n * nat (sint (flat_d b))) x\<rparr>)),
      faiss_train = (\<lambda>b n x. (None, b)),
      faiss_search =
        (\<lambda>b nq x k. if sint k \<le> 0 then Inl ''Error: k > 0 failed''
                     else Inr (\<lambda>i. 0, \<lambda>i. of_nat (i mod nat (sint k)))),
      faiss_range_search = (\<lambda>b x radius. Inr (flat_ntotal b, \<lambda>i. 0, \<lambda>i. of_nat i)),
      faiss_merge_from = flat_merge_from,
      faiss_reset = (\<lambda>b. (None, b\<lparr>flat_codes := []\<rparr>)),
      faiss_set_nprobe = (\<lambda>b nprobe. b),
      faiss_write_index = flat_write_index,
      faiss_read_index = flat_read_index\<rparr>"

text \<open>
  A wrapper that is not disposed, and a live handle, on a flat index of the given
  dimension holding the given floats.
\<close>

definition flat_wrapper :: "nat \<Rightarrow> cint \<Rightarrow> float list \<Rightarrow> flat_index FaissIndexWrapper" where
  "flat_wrapper m dims codes =
     \<lparr>index_w = Some \<lparr>flat_d = dims, flat_metric = 1, flat_codes = codes\<rparr>,
      dims_w = dims, disposed_w = False, mutex_w = m\<rparr>"

definition flat_handle :: "nat \<Rightarrow> cint \<Rightarrow> float list \<Rightarrow> flat_index FaissIndexWrapperJS" where
  "flat_handle m dims codes = \<lparr>wrapper_js = Some (flat_wrapper m dims codes), dims_js = dims\<rparr>"

section \<open>Two threads and their locks\<close>

text \<open>
  The events of a merge, and a scheduler for the events of several threads that run
  at once. A state is the list of the mutexes that are held, each with the thread that
  holds it, and what is left of each thread. A thread takes its next step unless that
  step acquires a mutex that is held. \<open>run\<close> follows a schedule of thread numbers; a
  state is \<open>deadlocked\<close> when some thread is not finished and no thread can step.
\<close>

definition merge_events :: "'b faiss \<Rightarrow> 'b FaissIndexWrapper \<Rightarrow> 'b FaissIndexWrapper \<Rightarrow> event list" where
  "merge_events F w other =
     (case MergeFrom F w other of None \<Rightarrow> [] | Some (r, w', other', ev) \<Rightarrow> ev)"

type_synonym threads = "(nat \<times> nat) list \<times> event list list"

definition step :: "nat \<Rightarrow> threads \<Rightarrow> threads option" where
  "step i s =
     (case s of (held, ts) \<Rightarrow>
        if length ts \<le> i then None
        else (case ts ! i of
           [] \<Rightarrow> None
         | Acquire m # rest \<Rightarrow>
             if m \<in> set (map fst held) then None else Some ((m, i) # held, ts[i := rest])
         | Release m # rest \<Rightarrow> Some (filter (\<lambda>(m', j). m' \<noteq> m) held, ts[i := rest])
         | Backend m # rest \<Rightarrow> Some (held, ts[i := rest])))"

fun run :: "nat list \<Rightarrow> threads \<Rightarrow> threads option" where
  "run [] s = Some s"
| "run (i # schedule) s = (case step i s of None \<Rightarrow> None | Some s' \<Rightarrow> run schedule s')"

definition deadlocked :: "threads \<Rightarrow> bool" where
  "deadlocked s =
     (list_ex (\<lambda>t. t \<noteq> []) (snd s) \<and> list_all (\<lambda>i. step i s = None) [0..<length (snd s)])"

section \<open>The identity of a mutex\<close>

text \<open>
  A wrapper made by \<open>Load\<close> or \<open>FromBuffer\<close> has a mutex of its own. \<open>remutex m\<close>
  is what a call returns when the same wrapper has the mutex \<open>m\<close> instead: the
  same result, the wrapper with that mutex, the events on that mutex.
\<close>

definition relabel :: "nat \<Rightarrow> event \<Rightarrow> event" where
  "relabel m e = (case e of Acquire x \<Rightarrow> Acquire m | Release x \<Rightarrow> Release m | Backend x \<Rightarrow> Backend m)"

definition remutex ::
  "nat \<Rightarrow> 'r \<times> 'b FaissIndexWrapper \<times> event list \<Rightarrow> 'r \<times> 'b FaissIndexWrapper \<times> event list" where
  "remutex m x = (case x of (r, w, ev) \<Rightarrow> (r, w\<lparr>mutex_w := m\<rparr>, map (relabel m) ev))"

definition remutex_js ::
  "nat \<Rightarrow> 'r \<times> 'b FaissIndexWrapperJS \<times> event list \<Rightarrow> 'r \<times> 'b FaissIndexWrapperJS \<times> event list" where
  "remutex_js m x =
     (case x of (r, h, ev) \<Rightarrow>
        (r, h\<lparr>wrapper_js := map_option (\<lambda>w. w\<lparr>mutex_w := m\<rparr>) (wrapper_js h)\<rparr>, map (relabel m) ev))"


section \<open>Disposal\<close>

lemma disposed_after_dispose: "disposed_handle (after_dispose h)"
  by (simp add: disposed_handle_def after_dispose_def dispose_def JS_Dispose_def IsDisposed_def
      Dispose_def locked_def split: option.splits)

lemma ValidateNotDisposed_disposed:
  "disposed_handle h \<Longrightarrow> fst (ValidateNotDisposed h) = Some (Error ''Index has been disposed'')"
  by (auto simp: disposed_handle_def ValidateNotDisposed_def IsDisposed_def split: option.splits)

lemma validated_disposed:
  "disposed_handle h \<Longrightarrow>
   validated h rest = (Inl (Error ''Index has been disposed''), snd (ValidateNotDisposed h))"
  using ValidateNotDisposed_disposed [of h]
  by (cases "ValidateNotDisposed h") (simp add: validated_def)

lemma add_disposed:
  "disposed_handle h \<Longrightarrow>
   add F h info = (Thrown (Error ''Index has been disposed''), h, snd (ValidateNotDisposed h))"
  by (simp add: add_def JS_Add_def validated_disposed)

lemma train_disposed:
  "disposed_handle h \<Longrightarrow>
   train F h info = (Thrown (Error ''Index has been disposed''), h, snd (ValidateNotDisposed h))"
  by (simp add: train_def JS_Train_def validated_disposed)

lemma search_disposed:
  "disposed_handle h \<Longrightarrow>
   search F h info = (Thrown (Error ''Index has been disposed''), h, snd (ValidateNotDisposed h))"
  by (simp add: search_def JS_Search_def validated_disposed)

lemma searchBatch_disposed:
  "disposed_handle h \<Longrightarrow>
   searchBatch F h info = (Thrown (Error ''Index has been disposed''), h, snd (ValidateNotDisposed h))"
  by (simp add: searchBatch_def JS_SearchBatch_def validated_disposed)

lemma rangeSearch_disposed:
  "disposed_handle h \<Longrightarrow>
   rangeSearch F h info = (Thrown (Error ''Index has been disposed''), h, snd (ValidateNotDisposed h))"
  by (simp add: rangeSearch_def JS_RangeSearch_def validated_disposed)

lemma save_disposed:
  "disposed_handle h \<Longrightarrow>
   save F h info fs =
     ((Thrown (Error ''Index has been disposed''), h, snd (ValidateNotDisposed h)), fs)"
  by (simp add: save_def JS_Save_def validated_disposed)

lemma toBuffer_disposed:
  "disposed_handle h \<Longrightarrow>
   toBuffer F h = (Thrown (Error ''Index has been disposed''), h, snd (ValidateNotDisposed h))"
  by (simp add: toBuffer_def JS_ToBuffer_def validated_disposed)

lemma mergeFrom_disposed:
  "disposed_handle h \<Longrightarrow>
   mergeFrom F h info =
     Some ((Thrown (Error ''Index has been disposed''), h, snd (ValidateNotDisposed h)), None)"
  using ValidateNotDisposed_disposed [of h]
  by (cases "ValidateNotDisposed h") (simp add: mergeFrom_def JS_MergeFrom_def)

lemma reset_disposed:
  "disposed_handle h \<Longrightarrow>
   reset F h = (Thrown (Error ''Index has been disposed''), h, snd (ValidateNotDisposed h))"
  using ValidateNotDisposed_disposed [of h]
  by (cases "ValidateNotDisposed h") (simp add: reset_def JS_Reset_def)

lemma setNprobe_disposed:
  "disposed_handle h \<Longrightarrow>
   setNprobe F h info = (Thrown (Error ''Index has been disposed''), h, snd (ValidateNotDisposed h))"
  using ValidateNotDisposed_disposed [of h]
  by (cases "ValidateNotDisposed h") (simp add: setNprobe_def JS_SetNprobe_def)

lemma getStats_disposed:
  "disposed_handle h \<Longrightarrow>
   getStats F h = (Thrown (Error ''Index has been disposed''), h, snd (ValidateNotDisposed h))"
  using ValidateNotDisposed_disposed [of h]
  by (cases "ValidateNotDisposed h") (simp add: getStats_def JS_GetStats_def)

lemma dispose_disposed:
  "disposed_handle h \<Longrightarrow> dispose h = (Fulfilled (), h, snd (ValidateNotDisposed h))"
  by (simp add: disposed_handle_def dispose_def JS_Dispose_def IsDisposed_def ValidateNotDisposed_def
      split: option.splits)

lemma after_dispose_idem: "disposed_handle h \<Longrightarrow> (after_dispose ^^ n) h = h"
  by (induction n) (simp_all add: after_dispose_def dispose_disposed)

text \<open>
  Claim C2. On the handle that \<open>dispose()\<close> leaves, whatever the handle was before and
  whatever the arguments are, each of add, train, search, searchBatch, rangeSearch, save,
  toBuffer, mergeFrom, reset, setNprobe and getStats throws the error
  \<open>Index has been disposed\<close> on the calling thread and leaves the handle (and the file
  system) as it is; dispose itself succeeds and changes nothing, however often it is
  repeated.
\<close>

theorem disposal_finality:
  "add F (after_dispose h) info =
     (Thrown (Error ''Index has been disposed''), after_dispose h,
      snd (ValidateNotDisposed (after_dispose h)))
   \<and> train F (after_dispose h) info =
     (Thrown (Error ''Index has been disposed''), after_dispose h,
      snd (ValidateNotDisposed (after_dispose h)))
   \<and> search F (after_dispose h) info =
     (Thrown (Error ''Index has been disposed''), after_dispose h,
      snd (ValidateNotDisposed (after_dispose h)))
   \<and> searchBatch F (after_dispose h) info =
     (Thrown (Error ''Index has been disposed''), after_dispose h,
      snd (ValidateNotDisposed (after_dispose h)))
   \<and> rangeSearch F (after_dispose h) info =
     (Thrown (Error ''Index has been disposed''), after_dispose h,
      snd (ValidateNotDisposed (after_dispose h)))
   \<and> save F (after_dispose h) info fs =
     ((Thrown (Error ''Index has been disposed''), after_dispose h,
       snd (ValidateNotDisposed (after_dispose h))), fs)
   \<and> toBuffer F (after_dispose h) =
     (Thrown (Error ''Index has been disposed''), after_dispose h,
      snd (ValidateNotDisposed (after_dispose h)))
   \<and> mergeFrom F (after_dispose h) info =
     Some ((Thrown (Error ''Index has been disposed''), after_dispose h,
            snd (ValidateNotDisposed (after_dispose h))), None)
   \<and> reset F (after_dispose h) =
     (Thrown (Error ''Index has been disposed''), after_dispose h,
      snd (ValidateNotDisposed (after_dispose h)))
   \<and> setNprobe F (after_dispose h) info =
     (Thrown (Error ''Index has been disposed''), after_dispose h,
      snd (ValidateNotDisposed (after_dispose h)))
   \<and> getStats F (after_dispose h) =
     (Thrown (Error ''Index has been disposed''), after_dispose h,
      snd (ValidateNotDisposed (after_dispose h)))
   \<and> dispose (after_dispose h) =
     (Fulfilled (), after_dispose h, snd (ValidateNotDisposed (after_dispose h)))
   \<and> (after_dispose ^^ n) (after_dispose h) = after_dispose h"
  using disposed_after_dispose [of h]
  by (simp add: add_disposed train_disposed search_disposed searchBatch_disposed
      rangeSearch_disposed save_disposed toBuffer_disposed mergeFrom_disposed reset_disposed
      setNprobe_disposed getStats_disposed dispose_disposed after_dispose_idem)

section \<open>Labels\<close>






section \<open>Statistics\<close>

lemma same_wrapper: "wrapper_js h = Some w \<Longrightarrow> h\<lparr>wrapper_js := Some w\<rparr> = h"
  by (cases h) simp

lemma getStats_live:
  assumes "wrapper_js h = Some w" "\<not> disposed_w w" "index_w w = Some b"
  shows "getStats F h =
     (Fulfilled \<lparr>stats_ntotal = faiss_ntotal F b, stats_dims = dims_w w,
                 stats_isTrained = faiss_is_trained F b, stats_type = ''FLAT_L2''\<rparr>, h,
      [Acquire (mutex_w w), Release (mutex_w w),
       Acquire (mutex_w w), Backend (mutex_w w), Release (mutex_w w),
       Acquire (mutex_w w), Backend (mutex_w w), Release (mutex_w w)])"
  using assms
  by (simp add: getStats_def JS_GetStats_def ValidateNotDisposed_def IsDisposed_def
      GetTotalVectors_def IsTrained_def locked_def with_index_def GetDimensions_def)

lemma constructor_live: "FaissIndexWrapperJS F m info = Inr h \<Longrightarrow> live h"
  by (auto simp: FaissIndexWrapperJS_def FaissIndexWrapper_def SetNprobe_def locked_def live_def Let_def
      split: if_splits sum.splits prod.splits option.splits)

lemma wrap_loaded_live:
  "wrap_loaded F m prefix loaded = Inr w \<Longrightarrow> \<not> disposed_w w \<and> index_w w \<noteq> None"
  by (auto simp: wrap_loaded_def FaissIndexWrapper1_def FaissIndexWrapper_def
      split: if_splits sum.splits option.splits)

lemma adopt_wrapper:
  "adopt F m' loaded = Inr h \<Longrightarrow> \<exists>w. loaded = Inr w \<and> wrapper_js h = Some w"
  by (auto simp: adopt_def Let_def split: sum.splits)

lemma load_live: "JS_Load F m m' fs info = Inr h \<Longrightarrow> live h"
  by (auto simp: JS_Load_def Load_def live_def split: if_splits dest!: adopt_wrapper wrap_loaded_live)

lemma fromBuffer_live: "JS_FromBuffer F m m' info = Inr h \<Longrightarrow> live h"
  by (auto simp: JS_FromBuffer_def FromBuffer_def live_def Let_def split: if_splits
      dest!: adopt_wrapper wrap_loaded_live)

text \<open>
  Claim C10. For every live handle, and so for every handle the constructor, load or
  fromBuffer returns, whatever the library and whatever index the handle owns, getStats
  succeeds and the type it reports is the string \<open>FLAT_L2\<close>.
\<close>

theorem getStats_type:
  assumes "live h \<or> FaissIndexWrapperJS F m info = Inr h \<or> JS_Load F m m' fs info = Inr h
           \<or> JS_FromBuffer F m m' info = Inr h"
  shows "\<exists>s. fst (getStats F h) = Fulfilled s \<and> stats_type s = ''FLAT_L2''"
proof -
  from assms have "live h"
    using constructor_live load_live fromBuffer_live by blast
  then obtain w b where "wrapper_js h = Some w" "\<not> disposed_w w" "index_w w = Some b"
    by (auto simp: live_def split: option.splits)
  then show ?thesis
    by (simp add: getStats_live)
qed

theorem getStats_type_witness:
  "FaissIndexWrapperJS flat 7 [Object [(''dims'', JSNumber 4 0), (''type'', JSString ''FLAT_IP'')] None]
     = Inr \<lparr>wrapper_js = Some \<lparr>index_w = Some \<lparr>flat_d = 4, flat_metric = 0, flat_codes = []\<rparr>,
                                 dims_w = 4, disposed_w = False, mutex_w = 7\<rparr>, dims_js = 4\<rparr>
   \<and> (\<exists>s. fst (getStats flat
          \<lparr>wrapper_js = Some \<lparr>index_w = Some \<lparr>flat_d = 4, flat_metric = 0, flat_codes = []\<rparr>,
                                 dims_w = 4, disposed_w = False, mutex_w = 7\<rparr>, dims_js = 4\<rparr>) = Fulfilled s
        \<and> stats_type s = ''FLAT_L2'')"
proof -
  have c: "FaissIndexWrapperJS flat 7 [Object [(''dims'', JSNumber 4 0), (''type'', JSString ''FLAT_IP'')] None]
     = Inr \<lparr>wrapper_js = Some \<lparr>index_w = Some \<lparr>flat_d = 4, flat_metric = 0, flat_codes = []\<rparr>,
                                 dims_w = 4, disposed_w = False, mutex_w = 7\<rparr>, dims_js = 4\<rparr>"
    by (simp add: FaissIndexWrapperJS_def index_type_def FaissIndexWrapper_def flat_def)
  show ?thesis
    using c getStats_type [of _ flat 7
        "[Object [(''dims'', JSNumber 4 0), (''type'', JSString ''FLAT_IP'')] None]",
        OF disjI2, OF disjI1, OF c]
    by simp
qed

section \<open>The empty index\<close>

lemma ucast_of_nat_down: "(ucast (of_nat n :: size_t) :: cint) = of_nat n"
  by (rule bit_word_eqI) (auto simp: bit_simps)

text \<open>A query of exactly \<open>dims_\<close> floats passes the length check of \<open>Search\<close>.\<close>

lemma exact_length_cast:
  "int n = sint d \<Longrightarrow> (ucast (of_nat n :: size_t) :: cint) = d"
proof -
  assume a: "int n = sint d"
  have "(of_nat n :: cint) = of_int (int n)" by simp
  also have "\<dots> = d" using a by simp
  finally show ?thesis by (simp add: ucast_of_nat_down)
qed

lemma search_empty:
  assumes "wrapper_js h = Some w" "\<not> disposed_w w" "index_w w = Some b" "faiss_ntotal F b = 0"
    and "int (length q) = sint (dims_js h)" "0 < sint k"
  shows "search F h [Float32Array q, JSNumber k kf] =
     (Rejected (Error ''Cannot search empty index''), h,
      [Acquire (mutex_w w), Release (mutex_w w), Acquire (mutex_w w), Release (mutex_w w),
       Acquire (mutex_w w), Backend (mutex_w w), Release (mutex_w w)])"
  using assms exact_length_cast [of "length q" "dims_js h"]
  by (simp add: search_def JS_Search_def validated_def ValidateNotDisposed_def IsDisposed_def
      queue_def SearchWorker_Execute_def try_live_def GetTotalVectors_def locked_def with_index_def
      same_wrapper)

lemma rangeSearch_empty:
  assumes "wrapper_js h = Some w" "\<not> disposed_w w" "index_w w = Some b" "faiss_ntotal F b = 0"
    and "int (length q) = sint (dims_js h)" "\<not> float_lt_zero radius"
  shows "rangeSearch F h [Float32Array q, JSNumber ri radius] =
     (Rejected (Error ''Cannot search empty index''), h,
      [Acquire (mutex_w w), Release (mutex_w w), Acquire (mutex_w w), Release (mutex_w w),
       Acquire (mutex_w w), Backend (mutex_w w), Release (mutex_w w)])"
  using assms exact_length_cast [of "length q" "dims_js h"]
  by (simp add: rangeSearch_def JS_RangeSearch_def validated_def ValidateNotDisposed_def IsDisposed_def
      queue_def RangeSearchWorker_Execute_def try_live_def GetTotalVectors_def locked_def with_index_def
      same_wrapper)

lemma Search_empty:
  assumes "\<not> disposed_w w" "index_w w = Some b" "faiss_ntotal F b = 0" "0 < sint k"
  shows "Search F w (Some q) k (Some ds) (Some ls) =
     (Inl (runtime_error ''Cannot search empty index''), w,
      [Acquire (mutex_w w), Backend (mutex_w w), Release (mutex_w w)])"
  using assms
  by (simp add: Search_def locked_def with_index_def)

lemma RangeSearch_empty:
  assumes "\<not> disposed_w w" "index_w w = Some b" "faiss_ntotal F b = 0" "\<not> float_lt_zero radius"
  shows "RangeSearch F w (Some q) radius =
     (Inl (runtime_error ''Cannot search empty index''), w,
      [Acquire (mutex_w w), Backend (mutex_w w), Release (mutex_w w)])"
  using assms
  by (simp add: RangeSearch_def locked_def with_index_def)

text \<open>
  Claim C7. On a live handle whose index holds no vector, search with a query of
  exactly \<open>dims\<close> floats and any \<open>k > 0\<close>, and rangeSearch with such a query and any
  radius that is not below zero, are rejected with \<open>Cannot search empty index\<close>, and
  the handle is returned as it was. The wrapper methods \<open>Search\<close> and \<open>RangeSearch\<close>
  themselves throw the \<open>runtime_error\<close> of that message and leave the wrapper as it was.
\<close>

theorem empty_index_guard:
  assumes "wrapper_js h = Some w" "\<not> disposed_w w" "index_w w = Some b" "faiss_ntotal F b = 0"
    and "int (length q) = sint (dims_js h)" "0 < sint k" "\<not> float_lt_zero radius"
  shows "search F h [Float32Array q, JSNumber k kf] =
           (Rejected (Error ''Cannot search empty index''), h,
            [Acquire (mutex_w w), Release (mutex_w w), Acquire (mutex_w w), Release (mutex_w w),
             Acquire (mutex_w w), Backend (mutex_w w), Release (mutex_w w)])
       \<and> rangeSearch F h [Float32Array q, JSNumber ri radius] =
           (Rejected (Error ''Cannot search empty index''), h,
            [Acquire (mutex_w w), Release (mutex_w w), Acquire (mutex_w w), Release (mutex_w w),
             Acquire (mutex_w w), Backend (mutex_w w), Release (mutex_w w)])
       \<and> Search F w (Some q) k (Some ds) (Some ls) =
           (Inl (runtime_error ''Cannot search empty index''), w,
            [Acquire (mutex_w w), Backend (mutex_w w), Release (mutex_w w)])
       \<and> RangeSearch F w (Some q) radius =
           (Inl (runtime_error ''Cannot search empty index''), w,
            [Acquire (mutex_w w), Backend (mutex_w w), Release (mutex_w w)])"
  using assms
  by (simp add: search_empty rangeSearch_empty Search_empty RangeSearch_empty)

theorem empty_index_guard_witness:
  "faiss_ntotal flat \<lparr>flat_d = 4, flat_metric = 1, flat_codes = []\<rparr> = 0
   \<and> \<not> float_lt_zero 0x3F000000
   \<and> search flat (flat_handle 1 4 []) [Float32Array [0, 0, 0, 0], JSNumber 3 0] =
       (Rejected (Error ''Cannot search empty index''), flat_handle 1 4 [],
        [Acquire 1, Release 1, Acquire 1, Release 1, Acquire 1, Backend 1, Release 1])
   \<and> rangeSearch flat (flat_handle 1 4 []) [Float32Array [0, 0, 0, 0], JSNumber 0 0x3F000000] =
       (Rejected (Error ''Cannot search empty index''), flat_handle 1 4 [],
        [Acquire 1, Release 1, Acquire 1, Release 1, Acquire 1, Backend 1, Release 1])"
proof -
  have n: "faiss_ntotal flat \<lparr>flat_d = 4, flat_metric = 1, flat_codes = []\<rparr> = 0"
    by (simp add: flat_def flat_ntotal_def)
  have r: "\<not> float_lt_zero 0x3F000000"
    by (simp add: float_lt_zero_def)
  show ?thesis
    using n r
      empty_index_guard [of "flat_handle 1 4 []"
        "\<lparr>index_w = Some \<lparr>flat_d = 4, flat_metric = 1, flat_codes = []\<rparr>,
          dims_w = 4, disposed_w = False, mutex_w = 1\<rparr>"
        "\<lparr>flat_d = 4, flat_metric = 1, flat_codes = []\<rparr>" flat "[0, 0, 0, 0]" 3 "0x3F000000" 0 0]
    by (simp add: flat_handle_def flat_wrapper_def)
qed

section \<open>A count of zero\<close>

lemma Train_zero:
  "\<not> disposed_w w \<Longrightarrow>
   Train F w vectors 0 =
     (Inl (invalid_argument (if vectors = None then ''Vectors pointer cannot be null''
                             else ''Number of training vectors must be positive'')),
      w, [Acquire (mutex_w w), Release (mutex_w w)])"
  by (simp add: Train_def locked_def throw_def)

lemma Add_zero:
  "\<not> disposed_w w \<Longrightarrow>
   Add F w (Some xs) 0 = (Inr (), w, [Acquire (mutex_w w), Release (mutex_w w)])"
  by (simp add: Add_def locked_def)

lemma train_empty:
  assumes "wrapper_js h = Some w" "\<not> disposed_w w" "dims_js h \<noteq> 0"
  shows "train F h [Float32Array []] =
     (Rejected (Error ''FAISS error: Vectors pointer cannot be null''), h,
      [Acquire (mutex_w w), Release (mutex_w w), Acquire (mutex_w w), Release (mutex_w w),
       Acquire (mutex_w w), Release (mutex_w w)])"
  using assms
  by (simp add: train_def JS_Train_def validated_def ValidateNotDisposed_def IsDisposed_def
      multiple_of_dims_def TrainWorker_def queue_def TrainWorker_Execute_def try_live_def
      caught_def Train_def locked_def throw_def vector_data_def catch_exception_def same_wrapper)

text \<open>
  Every add of no vectors ends in the null check of \<open>Add\<close>: the worker holds an empty
  vector, whose \<open>data()\<close> is the null pointer, so the return for a count of zero is
  never reached.
\<close>

lemma JS_Add_zero_empty:
  "JS_Add h info = (Inr (vectors, 0), ev) \<Longrightarrow> vectors = []"
  by (auto simp: JS_Add_def validated_def multiple_of_dims_def AddWorker_def
      split: prod.splits option.splits if_splits napi_value.splits sum.splits)

lemma add_count_zero_rejected:
  assumes "wrapper_js h = Some w" "\<not> disposed_w w" "JS_Add h info = (Inr (vectors, 0), ev)"
  shows "add F h info =
     (Rejected (Error ''FAISS error: Vectors pointer cannot be null''), h,
      ev @ [Acquire (mutex_w w), Release (mutex_w w), Acquire (mutex_w w), Release (mutex_w w)])"
  using assms JS_Add_zero_empty [OF assms(3)]
  by (simp add: add_def queue_def AddWorker_Execute_def try_live_def IsDisposed_def caught_def
      Add_def locked_def throw_def vector_data_def catch_exception_def same_wrapper)

text \<open>
  Claim C6, on a live handle of dimension four that holds one vector. train on an empty
  array is rejected, as the claim says: \<open>Train\<close> throws \<open>invalid_argument\<close>. add on an
  empty array is rejected as well, with the \<open>invalid_argument\<close> of the null check of
  \<open>Add\<close>, where the claim says that it succeeds and does nothing. Either way the handle
  is as it was.
\<close>

theorem add_empty_rejected:
  "add flat (flat_handle 1 4 [1, 2, 3, 4]) [Float32Array []] =
     (Rejected (Error ''FAISS error: Vectors pointer cannot be null''), flat_handle 1 4 [1, 2, 3, 4],
      [Acquire 1, Release 1, Acquire 1, Release 1, Acquire 1, Release 1])
   \<and> train flat (flat_handle 1 4 [1, 2, 3, 4]) [Float32Array []] =
     (Rejected (Error ''FAISS error: Vectors pointer cannot be null''), flat_handle 1 4 [1, 2, 3, 4],
      [Acquire 1, Release 1, Acquire 1, Release 1, Acquire 1, Release 1])
   \<and> fst (Train flat (flat_wrapper 1 4 [1, 2, 3, 4]) (Some [5]) 0) =
       Inl (invalid_argument ''Number of training vectors must be positive'')
   \<and> fst (Add flat (flat_wrapper 1 4 [1, 2, 3, 4]) None 0) =
       Inl (invalid_argument ''Vectors pointer cannot be null'')"
  by (simp add: add_def JS_Add_def train_def JS_Train_def validated_def ValidateNotDisposed_def
      IsDisposed_def flat_handle_def flat_wrapper_def multiple_of_dims_def AddWorker_def
      TrainWorker_def queue_def AddWorker_Execute_def TrainWorker_Execute_def try_live_def
      caught_def Add_def Train_def locked_def throw_def vector_data_def catch_exception_def)

section \<open>Machine arithmetic\<close>

lemma unat_scast_pos: "0 \<le> sint (d :: cint) \<Longrightarrow> unat (scast d :: size_t) = nat (sint d)"
proof -
  assume a: "0 \<le> sint d"
  have b: "sint d < 2 ^ 31" using sint_lt [of d] by simp
  have "sint (scast d :: size_t) = signed_take_bit 63 (sint d)"
    using signed_scast_eq [of d, where ?'c = 64 and ?'a = int] by simp
  also have "\<dots> = sint d"
    by (rule signed_take_bit_int_eq_self) (use a b in simp_all)
  finally have s: "sint (scast d :: size_t) = sint d" .
  have "uint (scast d :: size_t) = take_bit 64 (sint (scast d :: size_t))"
    using uint_sint [of "scast d :: size_t"] by simp
  also have "\<dots> = take_bit 64 (sint d)" by (simp only: s)
  also have "\<dots> = sint d"
    by (rule take_bit_int_eq_self) (use a b in simp_all)
  finally have "uint (scast d :: size_t) = sint d" .
  then show ?thesis by (simp only: unat_eq_nat_uint)
qed

lemma unat_of_nat64: "n < 2 ^ 64 \<Longrightarrow> unat (of_nat n :: size_t) = n"
  by (simp add: unsigned_of_nat take_bit_nat_eq_self)

lemma sint_of_nat32: "n < 2 ^ 31 \<Longrightarrow> sint (of_nat n :: cint) = int n"
  by (simp add: signed_of_nat signed_take_bit_int_eq_self)

lemma not_multiple:
  assumes "n < 2 ^ 64" "0 < sint (d :: cint)" "n mod nat (sint d) \<noteq> 0"
  shows "(of_nat n :: size_t) mod scast d \<noteq> 0"
proof
  assume z: "(of_nat n :: size_t) mod scast d = 0"
  have "unat ((of_nat n :: size_t) mod scast d) = unat (of_nat n :: size_t) mod unat (scast d :: size_t)"
    by (rule unat_mod_distrib)
  also have "unat (of_nat n :: size_t) = n"
    using assms(1) by (rule unat_of_nat64)
  also have "unat (scast d :: size_t) = nat (sint d)"
    using assms(2) by (simp add: unat_scast_pos)
  finally show False using z assms(3) by simp
qed

lemma length_mismatch:
  assumes "n < 2 ^ 31" "int n \<noteq> sint (d :: cint)"
  shows "(ucast (of_nat n :: size_t) :: cint) \<noteq> d"
proof
  assume "(ucast (of_nat n :: size_t) :: cint) = d"
  then have "d = of_nat n" by (simp add: ucast_of_nat_down)
  then have "sint d = int n" using assms(1) by (simp only: sint_of_nat32)
  then show False using assms(2) by simp
qed

lemma positive_nonzero: "0 < sint (d :: cint) \<Longrightarrow> d \<noteq> 0"
  by auto

section \<open>The dimension gate\<close>

lemma add_not_multiple:
  assumes "wrapper_js h = Some w" "\<not> disposed_w w" "0 < sint (dims_js h)"
    and "length xs < 2 ^ 64" "length xs mod nat (sint (dims_js h)) \<noteq> 0"
  shows "add F h (Float32Array xs # rest) =
     (Thrown (RangeError (''Vector length must be a multiple of dimensions. Got ''
                @ to_string_nat (length xs) @ '', expected multiple of ''
                @ to_string_int (sint (dims_js h)))), h,
      [Acquire (mutex_w w), Release (mutex_w w)])"
  using assms(1,2) positive_nonzero [OF assms(3)] not_multiple [OF assms(4,3,5)] unat_of_nat64 [OF assms(4)]
  by (simp add: add_def JS_Add_def validated_def ValidateNotDisposed_def IsDisposed_def
      multiple_of_dims_def)

lemma train_not_multiple:
  assumes "wrapper_js h = Some w" "\<not> disposed_w w" "0 < sint (dims_js h)"
    and "length xs < 2 ^ 64" "length xs mod nat (sint (dims_js h)) \<noteq> 0"
  shows "train F h (Float32Array xs # rest) =
     (Thrown (RangeError (''Vector length must be a multiple of dimensions. Got ''
                @ to_string_nat (length xs) @ '', expected multiple of ''
                @ to_string_int (sint (dims_js h)))), h,
      [Acquire (mutex_w w), Release (mutex_w w)])"
  using assms(1,2) positive_nonzero [OF assms(3)] not_multiple [OF assms(4,3,5)] unat_of_nat64 [OF assms(4)]
  by (simp add: train_def JS_Train_def validated_def ValidateNotDisposed_def IsDisposed_def
      multiple_of_dims_def)

lemma search_length_mismatch:
  assumes "wrapper_js h = Some w" "\<not> disposed_w w"
    and "length q < 2 ^ 31" "int (length q) \<noteq> sint (dims_js h)"
  shows "search F h (Float32Array q # JSNumber k kf # rest) =
     (Thrown (RangeError (''Query vector length must match index dimensions. Got ''
                @ to_string_nat (length q) @ '', expected ''
                @ to_string_int (sint (dims_js h)))), h,
      [Acquire (mutex_w w), Release (mutex_w w)])"
proof -
  have "length q < 2 ^ 64" using assms(3) by simp
  then have u: "unat (of_nat (length q) :: size_t) = length q" by (rule unat_of_nat64)
  show ?thesis
    using assms(1,2) length_mismatch [OF assms(3,4)] u
    by (simp add: search_def JS_Search_def validated_def ValidateNotDisposed_def IsDisposed_def)
qed

text \<open>
  Claim C5, as amended. On a live handle of dimension \<open>d > 0\<close>, add and train with
  an array whose length is not a multiple of \<open>d\<close>, and search with a query whose
  length is below \<open>2^31\<close> and is not \<open>d\<close>, throw a \<open>RangeError\<close> on the calling
  thread. Nothing is queued and the handle is returned as it was; the events are the
  acquire and release of the handle's own mutex by the disposed check, and no access to
  the backend.
\<close>

theorem dimension_gate:
  assumes "wrapper_js h = Some w" "\<not> disposed_w w" "0 < sint (dims_js h)"
  shows "(length xs < 2 ^ 64 \<and> length xs mod nat (sint (dims_js h)) \<noteq> 0 \<longrightarrow>
            add F h (Float32Array xs # rest) =
              (Thrown (RangeError (''Vector length must be a multiple of dimensions. Got ''
                         @ to_string_nat (length xs) @ '', expected multiple of ''
                         @ to_string_int (sint (dims_js h)))), h,
               [Acquire (mutex_w w), Release (mutex_w w)])
          \<and> train F h (Float32Array xs # rest) =
              (Thrown (RangeError (''Vector length must be a multiple of dimensions. Got ''
                         @ to_string_nat (length xs) @ '', expected multiple of ''
                         @ to_string_int (sint (dims_js h)))), h,
               [Acquire (mutex_w w), Release (mutex_w w)]))
       \<and> (length q < 2 ^ 31 \<and> int (length q) \<noteq> sint (dims_js h) \<longrightarrow>
            search F h (Float32Array q # JSNumber k kf # rest) =
              (Thrown (RangeError (''Query vector length must match index dimensions. Got ''
                         @ to_string_nat (length q) @ '', expected ''
                         @ to_string_int (sint (dims_js h)))), h,
               [Acquire (mutex_w w), Release (mutex_w w)]))"
  using assms add_not_multiple [of h w xs F rest] train_not_multiple [of h w xs F rest]
    search_length_mismatch [of h w q F k kf rest]
  by blast

theorem dimension_gate_witness:
  "add flat (flat_handle 1 4 []) [Float32Array [0, 0, 0], JSNumber 2 0] =
     (Thrown (RangeError ''Vector length must be a multiple of dimensions. Got 3, expected multiple of 4''),
      flat_handle 1 4 [], [Acquire 1, Release 1])
   \<and> train flat (flat_handle 1 4 []) [Float32Array [0, 0, 0], JSNumber 2 0] =
     (Thrown (RangeError ''Vector length must be a multiple of dimensions. Got 3, expected multiple of 4''),
      flat_handle 1 4 [], [Acquire 1, Release 1])
   \<and> search flat (flat_handle 1 4 []) [Float32Array [0, 0, 0], JSNumber 2 0, JSNumber 2 0] =
     (Thrown (RangeError ''Query vector length must match index dimensions. Got 3, expected 4''),
      flat_handle 1 4 [], [Acquire 1, Release 1])"
  using dimension_gate [of "flat_handle 1 4 []"
      "\<lparr>index_w = Some \<lparr>flat_d = 4, flat_metric = 1, flat_codes = []\<rparr>,
        dims_w = 4, disposed_w = False, mutex_w = 1\<rparr>" "[0, 0, 0]" flat "[JSNumber 2 0]" "[0, 0, 0]" 2 0]
  by (simp add: flat_handle_def flat_wrapper_def to_string_nat.simps to_string_int_def char_of_def bit_simps)

theorem dimension_gate_counterexample:
  "add flat (flat_handle 1 4 []) [Float32Array [0, 0, 0]] =
     (Thrown (RangeError ''Vector length must be a multiple of dimensions. Got 3, expected multiple of 4''),
      flat_handle 1 4 [], [Acquire 1, Release 1])
   \<and> length (replicate 4294967300 (0 :: float)) \<noteq> 4
   \<and> fst (search flat (flat_handle 1 4 [0, 0, 0, 0]) [Float32Array (replicate 4294967300 0), JSNumber 1 0]) =
       Fulfilled \<lparr>result_distances = [0], result_labels = [0]\<rparr>"
  by (simp add: add_def JS_Add_def validated_def ValidateNotDisposed_def IsDisposed_def flat_handle_def flat_wrapper_def
      multiple_of_dims_def to_string_nat.simps to_string_int_def char_of_def bit_simps
      search_def JS_Search_def queue_def SearchWorker_Execute_def SearchWorker_def try_live_def
      GetTotalVectors_def locked_def with_index_def flat_def flat_ntotal_def clamp_k_def
      vector_resize_def caught_def Search_def vector_data_def fill_def SearchWorker_OnOK_def
      GetDimensions_def throw_def static_cast_int32_def)

section \<open>The clamp of k\<close>

lemma sint_ucast_small: "unat (t :: size_t) < 2 ^ 31 \<Longrightarrow> sint (ucast t :: cint) = int (unat t)"
proof -
  assume a: "unat t < 2 ^ 31"
  have u: "uint t = int (unat t)" by (rule uint_nat)
  have lt: "uint t < 2 ^ 31" using a by transfer simp
  have "- (2 ^ 31) \<le> (0 :: int)" by simp
  then have ge: "- (2 ^ 31) \<le> uint t" using uint_nonnegative [of t] by (rule order_trans)
  have "sint (ucast t :: cint) = signed_take_bit 31 (uint t)"
    using signed_ucast_eq [of t, where ?'c = 32 and ?'a = int] by simp
  also have "\<dots> = uint t"
    using ge lt by (rule signed_take_bit_int_eq_self)
  finally show ?thesis using u by (simp only:)
qed

lemma clamp_k_small:
  assumes "unat t < 2 ^ 31"
  shows "sint (clamp_k k t) = min (sint k) (int (unat t))"
  using sint_ucast_small [OF assms] by (simp add: clamp_k_def min_def)

lemma clamp_k_idem:
  "clamp_k (clamp_k k t) t = clamp_k k t"
  by (simp add: clamp_k_def)

lemma uint_pos: "(t :: size_t) \<noteq> 0 \<Longrightarrow> 0 < uint t"
  using uint_0_iff [of t] uint_nonnegative [of t] by linarith

lemma clamp_k_pos:
  assumes "unat t < 2 ^ 31" "t \<noteq> 0" "0 < sint k"
  shows "0 < sint (clamp_k k t)"
  using clamp_k_small [OF assms(1), of k] assms(3) uint_pos [OF assms(2)] by simp

lemma unat_scast_clamp:
  assumes "unat t < 2 ^ 31" "t \<noteq> 0" "0 < sint k"
  shows "unat (scast (clamp_k k t) :: size_t) = nat (sint (clamp_k k t))"
  using clamp_k_pos [OF assms] by (simp add: unat_scast_pos)

lemma length_fill: "length (fill buf n f) = length buf"
  by (simp add: fill_def)

lemma SearchWorker_exact:
  "int (length q) = sint (dims_w w) \<Longrightarrow> SearchWorker w q = q"
  by (simp add: SearchWorker_def GetDimensions_def)

lemma vector_resize_small:
  "unat n < 2 ^ 32 \<Longrightarrow> vector_resize 4 n z = Inr (replicate (unat n) z)"
  "unat n < 2 ^ 32 \<Longrightarrow> vector_resize 8 n z = Inr (replicate (unat n) z)"
  by (simp_all add: vector_resize_def)

lemma nat_min_int: "nat (min a (int n)) = min (nat a) n"
  by (simp add: min_def) linarith

lemma clamp_k_bound:
  assumes "unat t < 2 ^ 31" "t \<noteq> 0" "0 < sint k"
  shows "unat (scast (clamp_k k t) :: size_t) < 2 ^ 32"
proof -
  have "sint (clamp_k k t) < 2 ^ 31" using sint_lt [of "clamp_k k t"] by simp
  then show ?thesis
    using unat_scast_clamp [OF assms] clamp_k_pos [OF assms] by simp
qed

lemma search_in_range:
  assumes "wrapper_js h = Some w" "\<not> disposed_w w" "index_w w = Some b"
    and "dims_w w = dims_js h" "0 < sint (dims_js h)" "int (length q) = sint (dims_js h)"
    and "0 < sint k" "faiss_ntotal F b \<noteq> 0" "unat (faiss_ntotal F b) < 2 ^ 31"
    and "faiss_search F b 1 q (scast (clamp_k k (faiss_ntotal F b))) = Inr (fd, fl)"
  shows "\<exists>r ev. search F h [Float32Array q, JSNumber k kf] = (Fulfilled r, h, ev)
           \<and> length (result_distances r) = min (nat (sint k)) (unat (faiss_ntotal F b))
           \<and> length (result_labels r) = min (nat (sint k)) (unat (faiss_ntotal F b))"
proof -
  let ?t = "faiss_ntotal F b"
  let ?ak = "clamp_k k ?t"
  have q: "SearchWorker w q = q" using assms(4,6) by (simp add: SearchWorker_exact)
  have qne: "q \<noteq> []" using assms(5,6) by auto
  have pos: "0 < sint ?ak" using assms(9,8,7) by (rule clamp_k_pos)
  have un: "unat (scast ?ak :: size_t) = nat (sint ?ak)" using assms(9,8,7) by (rule unat_scast_clamp)
  have bd: "unat (scast ?ak :: size_t) < 2 ^ 32" using assms(9,8,7) by (rule clamp_k_bound)
  have len: "nat (sint ?ak) = min (nat (sint k)) (unat ?t)"
    by (simp only: clamp_k_small [OF assms(9)] nat_min_int)
  have m0: "min (nat (sint k)) (unat ?t) \<noteq> 0" using pos len by linarith
  have un': "unat (scast ?ak :: size_t) = min (nat (sint k)) (unat ?t)" using un len by simp
  show ?thesis
    using assms(1,2,3,7,8,10) exact_length_cast [OF assms(6)] q qne len m0 un' pos
    by (simp add: vector_resize_small [OF bd] search_def JS_Search_def validated_def
        ValidateNotDisposed_def IsDisposed_def
        queue_def SearchWorker_Execute_def try_live_def GetTotalVectors_def locked_def with_index_def
        caught_def Search_def vector_data_def clamp_k_idem length_fill SearchWorker_OnOK_def
        same_wrapper Let_def throw_def)
qed

lemma fill_fresh: "fill (replicate n z) n f = map f [0..<n]"
  by (simp add: fill_def)

lemma search_labels_in_range:
  assumes "wrapper_js h = Some w" "\<not> disposed_w w" "index_w w = Some b"
    and "dims_w w = dims_js h" "0 < sint (dims_js h)" "int (length q) = sint (dims_js h)"
    and "0 < sint k" "faiss_ntotal F b \<noteq> 0" "unat (faiss_ntotal F b) < 2 ^ 31"
    and "faiss_search F b 1 q (scast (clamp_k k (faiss_ntotal F b))) = Inr (fd, fl)"
  shows "fst (search F h [Float32Array q, JSNumber k kf]) =
     Fulfilled \<lparr>result_distances = map fd [0..<min (nat (sint k)) (unat (faiss_ntotal F b))],
                 result_labels = map (\<lambda>i. static_cast_int32 (fl i))
                                   [0..<min (nat (sint k)) (unat (faiss_ntotal F b))]\<rparr>"
proof -
  let ?t = "faiss_ntotal F b"
  let ?ak = "clamp_k k ?t"
  have q: "SearchWorker w q = q" using assms(4,6) by (simp add: SearchWorker_exact)
  have qne: "q \<noteq> []" using assms(5,6) by auto
  have pos: "0 < sint ?ak" using assms(9,8,7) by (rule clamp_k_pos)
  have un: "unat (scast ?ak :: size_t) = nat (sint ?ak)" using assms(9,8,7) by (rule unat_scast_clamp)
  have bd: "unat (scast ?ak :: size_t) < 2 ^ 32" using assms(9,8,7) by (rule clamp_k_bound)
  have len: "nat (sint ?ak) = min (nat (sint k)) (unat ?t)"
    by (simp only: clamp_k_small [OF assms(9)] nat_min_int)
  have m0: "min (nat (sint k)) (unat ?t) \<noteq> 0" using pos len by linarith
  have un': "unat (scast ?ak :: size_t) = min (nat (sint k)) (unat ?t)" using un len by simp
  show ?thesis
    using assms(1,2,3,7,8,10) exact_length_cast [OF assms(6)] q qne len m0 un' pos
    by (simp add: vector_resize_small [OF bd] search_def JS_Search_def validated_def
        ValidateNotDisposed_def IsDisposed_def
        queue_def SearchWorker_Execute_def try_live_def GetTotalVectors_def locked_def with_index_def
        caught_def Search_def vector_data_def clamp_k_idem fill_fresh SearchWorker_OnOK_def
        same_wrapper Let_def throw_def comp_def)
qed

text \<open>
  Claim C3, on an index of \<open>2^32 + 1\<close> vectors. The clamp compares \<open>k\<close> with
  \<open>static_cast<int>(ntotal)\<close>, which is \<open>1\<close> here, so a search for \<open>k = 5\<close>
  neighbours, fewer than the index holds, is fulfilled with one pair. (Below \<open>2^31\<close>
  vectors the count is \<open>min k ntotal\<close>: lemma \<open>search_in_range\<close>.)
\<close>

theorem clamp_beyond_int:
  "faiss_ntotal flat \<lparr>flat_d = 1, flat_metric = 1, flat_codes = replicate 4294967297 0\<rparr> = 4294967297
   \<and> search flat (flat_handle 1 1 (replicate 4294967297 0)) [Float32Array [0], JSNumber 5 0] =
       (Fulfilled \<lparr>result_distances = [0], result_labels = [0]\<rparr>,
        flat_handle 1 1 (replicate 4294967297 0),
        [Acquire 1, Release 1, Acquire 1, Release 1, Acquire 1, Backend 1, Release 1,
         Acquire 1, Backend 1, Release 1])"
  by (simp add: search_def JS_Search_def validated_def ValidateNotDisposed_def IsDisposed_def
      flat_handle_def flat_wrapper_def queue_def SearchWorker_Execute_def SearchWorker_def try_live_def
      GetTotalVectors_def locked_def with_index_def flat_def flat_ntotal_def clamp_k_def
      vector_resize_def caught_def Search_def vector_data_def fill_def SearchWorker_OnOK_def
      GetDimensions_def throw_def static_cast_int32_def)

section \<open>Merging\<close>

lemma MergeFrom_frame:
  assumes "mutex_w w \<noteq> mutex_w other" "\<not> disposed_w w" "\<not> disposed_w other"
    and "dims_w other = dims_w w" "index_w w = Some b" "index_w other = Some ob"
    and "faiss_merge_from F b ob = (None, b', ob')"
  shows "MergeFrom F w other =
     Some (Inr (), w\<lparr>index_w := Some b'\<rparr>, other\<lparr>index_w := Some ob'\<rparr>,
           [Acquire (mutex_w w), Acquire (mutex_w other), Backend (mutex_w w), Backend (mutex_w other),
            Release (mutex_w other), Release (mutex_w w)])"
  using assms by (simp add: MergeFrom_def)

lemma mergeFrom_frame:
  assumes "wrapper_js h = Some w" "wrapper_js g = Some other"
    and "mutex_w w \<noteq> mutex_w other" "\<not> disposed_w w" "\<not> disposed_w other"
    and "dims_w other = dims_w w" "index_w w = Some b" "index_w other = Some ob"
    and "faiss_merge_from F b ob = (None, b', ob')"
  shows "mergeFrom F h [Object props (Some g)] =
     Some ((Fulfilled (), h\<lparr>wrapper_js := Some (w\<lparr>index_w := Some b'\<rparr>)\<rparr>,
            [Acquire (mutex_w w), Release (mutex_w w), Acquire (mutex_w other), Release (mutex_w other),
             Acquire (mutex_w w), Release (mutex_w w), Acquire (mutex_w other), Release (mutex_w other),
             Acquire (mutex_w w), Acquire (mutex_w other), Backend (mutex_w w), Backend (mutex_w other),
             Release (mutex_w other), Release (mutex_w w)]),
           Some (g\<lparr>wrapper_js := Some (other\<lparr>index_w := Some ob'\<rparr>)\<rparr>))"
  using assms(1-5) MergeFrom_frame [OF assms(3-9)]
  by (simp add: mergeFrom_def JS_MergeFrom_def ValidateNotDisposed_def IsDisposed_def
      MergeFromWorker_Execute_def)

text \<open>
  Claim C1, on the reference instance. A target of one vector and a source of two, both
  live and of dimension two: mergeFrom is fulfilled, the target then holds three
  vectors, and the source holds none. After a successful merge the two wrappers own
  exactly the two indexes that \<open>merge_from\<close> of the library leaves (lemma
  \<open>mergeFrom_frame\<close>); the library moves the entries of the source.
\<close>

theorem merge_moves_source:
  "mergeFrom flat (flat_handle 1 2 [1, 2]) [Object [] (Some (flat_handle 2 2 [3, 4, 5, 6]))] =
     Some ((Fulfilled (), flat_handle 1 2 [1, 2, 3, 4, 5, 6],
            [Acquire 1, Release 1, Acquire 2, Release 2, Acquire 1, Release 1, Acquire 2, Release 2,
             Acquire 1, Acquire 2, Backend 1, Backend 2, Release 2, Release 1]),
           Some (flat_handle 2 2 []))
   \<and> map_sum id stats_ntotal (fst (JS_GetStats flat (flat_handle 1 2 [1, 2]))) = Inr 1
   \<and> map_sum id stats_ntotal (fst (JS_GetStats flat (flat_handle 2 2 [3, 4, 5, 6]))) = Inr 2
   \<and> map_sum id stats_ntotal (fst (JS_GetStats flat (flat_handle 1 2 [1, 2, 3, 4, 5, 6]))) = Inr 3
   \<and> map_sum id stats_ntotal (fst (JS_GetStats flat (flat_handle 2 2 []))) = Inr 0"
  by (simp add: mergeFrom_def JS_MergeFrom_def ValidateNotDisposed_def IsDisposed_def
      MergeFromWorker_Execute_def MergeFrom_def flat_handle_def flat_wrapper_def flat_def
      flat_merge_from_def JS_GetStats_def GetTotalVectors_def IsTrained_def locked_def with_index_def
      flat_ntotal_def GetDimensions_def)

section \<open>The order of the locks\<close>

lemma merge_events_order:
  assumes "mutex_w a \<noteq> mutex_w b"
  shows "\<exists>ev. merge_events F a b = Acquire (mutex_w a) # Acquire (mutex_w b) # ev"
  using assms
  by (auto simp: merge_events_def MergeFrom_def Let_def split: option.splits prod.splits)

lemma opposite_merges_deadlock:
  assumes "ma \<noteq> mb"
  shows "run [0, 1] ([], [Acquire ma # Acquire mb # e1, Acquire mb # Acquire ma # e2]) =
           Some ([(mb, 1), (ma, 0)], [Acquire mb # e1, Acquire ma # e2])
         \<and> deadlocked ([(mb, 1), (ma, 0)], [Acquire mb # e1, Acquire ma # e2])"
  using assms by (simp add: step_def deadlocked_def upt_rec)

lemma merge_release_order:
  assumes "mutex_w a \<noteq> mutex_w b"
  shows "\<exists>ev. merge_events F a b = ev @ [Release (mutex_w b), Release (mutex_w a)]"
  using assms
  by (auto simp: merge_events_def MergeFrom_def Let_def split: option.splits prod.splits)

text \<open>
  Claim C8, as amended. A merge of two distinct wrappers acquires the mutex of the
  target first and the mutex of the source second, whatever their identities, so two
  merges in opposite directions acquire the two mutexes in opposite orders; when each
  thread has taken its first lock, neither can go on.
\<close>

theorem merge_lock_order:
  assumes "mutex_w a \<noteq> mutex_w b"
  shows "take 2 (merge_events F a b) = [Acquire (mutex_w a), Acquire (mutex_w b)]
       \<and> take 2 (merge_events F b a) = [Acquire (mutex_w b), Acquire (mutex_w a)]
       \<and> (\<exists>s. run [0, 1] ([], [merge_events F a b, merge_events F b a]) = Some s \<and> deadlocked s)"
proof -
  obtain e1 where e1: "merge_events F a b = Acquire (mutex_w a) # Acquire (mutex_w b) # e1"
    using merge_events_order [OF assms] by blast
  obtain e2 where e2: "merge_events F b a = Acquire (mutex_w b) # Acquire (mutex_w a) # e2"
    using merge_events_order [of b a F] assms by auto
  show ?thesis
    using opposite_merges_deadlock [OF assms, of e1 e2] by (simp only: e1 e2) simp
qed

theorem merge_lock_order_witness:
  "mutex_w (flat_wrapper 1 4 [1, 2, 3, 4]) \<noteq> mutex_w (flat_wrapper 2 4 [])
   \<and> take 2 (merge_events flat (flat_wrapper 1 4 [1, 2, 3, 4]) (flat_wrapper 2 4 [])) =
       [Acquire 1, Acquire 2]
   \<and> take 2 (merge_events flat (flat_wrapper 2 4 []) (flat_wrapper 1 4 [1, 2, 3, 4])) =
       [Acquire 2, Acquire 1]
   \<and> (\<exists>s. run [0, 1] ([], [merge_events flat (flat_wrapper 1 4 [1, 2, 3, 4]) (flat_wrapper 2 4 []),
                             merge_events flat (flat_wrapper 2 4 []) (flat_wrapper 1 4 [1, 2, 3, 4])])
              = Some s \<and> deadlocked s)"
proof -
  have ne: "mutex_w (flat_wrapper 1 4 [1, 2, 3, 4]) \<noteq> mutex_w (flat_wrapper 2 4 [])"
    by (simp add: flat_wrapper_def)
  have m1: "mutex_w (flat_wrapper 1 4 [1, 2, 3, 4]) = 1" and m2: "mutex_w (flat_wrapper 2 4 []) = 2"
    by (simp_all add: flat_wrapper_def)
  show ?thesis
    using ne merge_lock_order [OF ne, of flat] by (simp only: m1 m2) simp
qed

theorem merge_lock_order_counterexample:
  "merge_events flat (flat_wrapper 2 4 []) (flat_wrapper 1 4 [1, 2, 3, 4]) =
     [Acquire 2, Acquire 1, Backend 2, Backend 1, Release 1, Release 2]
   \<and> merge_events flat (flat_wrapper 1 4 [1, 2, 3, 4]) (flat_wrapper 2 4 []) =
     [Acquire 1, Acquire 2, Backend 1, Backend 2, Release 2, Release 1]
   \<and> run [0, 1] ([], [merge_events flat (flat_wrapper 2 4 []) (flat_wrapper 1 4 [1, 2, 3, 4]),
                      merge_events flat (flat_wrapper 1 4 [1, 2, 3, 4]) (flat_wrapper 2 4 [])]) =
       Some ([(1, 1), (2, 0)],
             [[Acquire 1, Backend 2, Backend 1, Release 1, Release 2],
              [Acquire 2, Backend 1, Backend 2, Release 2, Release 1]])
   \<and> deadlocked ([(1, 1), (2, 0)],
             [[Acquire 1, Backend 2, Backend 1, Release 1, Release 2],
              [Acquire 2, Backend 1, Backend 2, Release 2, Release 1]])"
  by (simp add: merge_events_def MergeFrom_def flat_wrapper_def flat_def flat_merge_from_def
      step_def deadlocked_def upt_rec)

section \<open>Results do not depend on the mutex\<close>

lemma locked_remutex:
  "locked (w\<lparr>mutex_w := m\<rparr>) (remutex m x) = remutex m (locked w x)"
  by (cases x) (simp add: locked_def remutex_def relabel_def)

lemma throw_remutex: "throw e (w\<lparr>mutex_w := m\<rparr>) = remutex m (throw e w)"
  by (simp add: throw_def remutex_def)

lemma with_index_remutex:
  "(\<And>b. f' b = remutex m (f b)) \<Longrightarrow> with_index (w\<lparr>mutex_w := m\<rparr>) f' = remutex m (with_index w f)"
  by (simp add: with_index_def throw_remutex split: option.splits)

lemma GetTotalVectors_remutex:
  "GetTotalVectors F (w\<lparr>mutex_w := m\<rparr>) = remutex m (GetTotalVectors F w)"
  by (simp add: GetTotalVectors_def locked_def with_index_def throw_def remutex_def relabel_def
      split: option.splits)

lemma IsTrained_remutex:
  "IsTrained F (w\<lparr>mutex_w := m\<rparr>) = remutex m (IsTrained F w)"
  by (simp add: IsTrained_def locked_def with_index_def throw_def remutex_def relabel_def
      split: option.splits)

lemma Search_remutex:
  "Search F (w\<lparr>mutex_w := m\<rparr>) q k ds ls = remutex m (Search F w q k ds ls)"
  by (simp add: Search_def locked_def with_index_def throw_def remutex_def relabel_def Let_def
      split: option.splits sum.splits prod.splits)

lemma SearchBatch_remutex:
  "SearchBatch F (w\<lparr>mutex_w := m\<rparr>) q nq k ds ls = remutex m (SearchBatch F w q nq k ds ls)"
  by (simp add: SearchBatch_def locked_def with_index_def throw_def remutex_def relabel_def Let_def
      split: option.splits sum.splits prod.splits)

lemma RangeSearch_remutex:
  "RangeSearch F (w\<lparr>mutex_w := m\<rparr>) q radius = remutex m (RangeSearch F w q radius)"
  by (simp add: RangeSearch_def locked_def with_index_def throw_def remutex_def relabel_def Let_def
      split: option.splits sum.splits prod.splits)

lemma ToBuffer_remutex:
  "ToBuffer F (w\<lparr>mutex_w := m\<rparr>) = remutex m (ToBuffer F w)"
  by (simp add: ToBuffer_def locked_def with_index_def throw_def remutex_def relabel_def
      split: option.splits sum.splits)

lemma caught_remutex: "caught (remutex m x) = remutex m (caught x)"
  by (cases x) (simp add: caught_def remutex_def)

lemma try_live_remutex:
  "try_live (w\<lparr>mutex_w := m\<rparr>) (remutex m x) = remutex m (try_live w x)"
  by (cases x) (simp add: try_live_def IsDisposed_def remutex_def relabel_def)

lemma SearchWorker_mutex: "SearchWorker (w\<lparr>mutex_w := m\<rparr>) q = SearchWorker w q"
  by (simp add: SearchWorker_def GetDimensions_def)

lemma RangeSearchWorker_mutex: "RangeSearchWorker (w\<lparr>mutex_w := m\<rparr>) q = RangeSearchWorker w q"
  by (simp add: RangeSearchWorker_def GetDimensions_def)

lemma SearchBatchWorker_mutex: "SearchBatchWorker (w\<lparr>mutex_w := m\<rparr>) q nq = SearchBatchWorker w q nq"
  by (simp add: SearchBatchWorker_def GetDimensions_def)

lemma SearchWorker_Execute_remutex:
  "SearchWorker_Execute F (w\<lparr>mutex_w := m\<rparr>) q k = remutex m (SearchWorker_Execute F w q k)"
proof (cases "GetTotalVectors F w")
  case (fields r w' ev)
  then show ?thesis
    by (cases r)
       (auto simp: SearchWorker_Execute_def GetTotalVectors_remutex remutex_def try_live_def
          IsDisposed_def relabel_def Let_def Search_remutex caught_def
          split: sum.splits prod.splits)
qed

lemma SearchBatchWorker_Execute_remutex:
  "SearchBatchWorker_Execute F (w\<lparr>mutex_w := m\<rparr>) q nq k =
     remutex m (SearchBatchWorker_Execute F w q nq k)"
proof (cases "GetTotalVectors F w")
  case (fields r w' ev)
  then show ?thesis
    by (cases r)
       (auto simp: SearchBatchWorker_Execute_def GetTotalVectors_remutex remutex_def try_live_def
          IsDisposed_def relabel_def Let_def SearchBatch_remutex caught_def
          split: sum.splits prod.splits)
qed

lemma RangeSearchWorker_Execute_remutex:
  "RangeSearchWorker_Execute F (w\<lparr>mutex_w := m\<rparr>) q radius =
     remutex m (RangeSearchWorker_Execute F w q radius)"
proof (cases "GetTotalVectors F w")
  case (fields r w' ev)
  then show ?thesis
    by (cases r)
       (auto simp: RangeSearchWorker_Execute_def GetTotalVectors_remutex remutex_def try_live_def
          IsDisposed_def relabel_def Let_def RangeSearch_remutex caught_def
          split: sum.splits prod.splits)
qed

lemma ToBufferWorker_Execute_remutex:
  "ToBufferWorker_Execute F (w\<lparr>mutex_w := m\<rparr>) = remutex m (ToBufferWorker_Execute F w)"
  by (simp add: ToBufferWorker_Execute_def ToBuffer_remutex caught_remutex try_live_remutex)

lemma ValidateNotDisposed_remutex:
  "wrapper_js h = Some w \<Longrightarrow>
   ValidateNotDisposed (h\<lparr>wrapper_js := Some (w\<lparr>mutex_w := m\<rparr>)\<rparr>) =
     map_prod id (map (relabel m)) (ValidateNotDisposed h)"
  by (simp add: ValidateNotDisposed_def IsDisposed_def relabel_def)

lemma validated_remutex:
  "wrapper_js h = Some w \<Longrightarrow>
   validated (h\<lparr>wrapper_js := Some (w\<lparr>mutex_w := m\<rparr>)\<rparr>) rest =
     map_prod id (map (relabel m)) (validated h rest)"
  by (cases "ValidateNotDisposed h")
     (auto simp: validated_def ValidateNotDisposed_remutex split: option.splits)

lemma queue_remutex:
  assumes "wrapper_js h = Some w" "Execute' (w\<lparr>mutex_w := m\<rparr>) = remutex m (Execute w)"
  shows "queue (h\<lparr>wrapper_js := Some (w\<lparr>mutex_w := m\<rparr>)\<rparr>) (map (relabel m) ev) Execute' OnOK =
           remutex_js m (queue h ev Execute OnOK)"
  using assms by (cases "Execute w") (simp add: queue_def remutex_def remutex_js_def)

lemma thrown_remutex:
  "wrapper_js h = Some w \<Longrightarrow>
   (r, h\<lparr>wrapper_js := Some (w\<lparr>mutex_w := m\<rparr>)\<rparr>, map (relabel m) ev) = remutex_js m (r, h, ev)"
  by (simp add: remutex_js_def)

lemma dims_js_remutex: "dims_js (h\<lparr>wrapper_js := x\<rparr>) = dims_js h"
  by simp

lemma search_remutex:
  assumes "wrapper_js h = Some w"
  shows "search F (h\<lparr>wrapper_js := Some (w\<lparr>mutex_w := m\<rparr>)\<rparr>) info = remutex_js m (search F h info)"
proof -
  have js: "JS_Search (h\<lparr>wrapper_js := Some (w\<lparr>mutex_w := m\<rparr>)\<rparr>) info =
              map_prod id (map (relabel m)) (JS_Search h info)"
    unfolding JS_Search_def dims_js_remutex by (rule validated_remutex [OF assms])
  show ?thesis
  proof (cases "JS_Search h info")
    case (Pair r ev)
    then show ?thesis
      using assms
      by (cases r)
         (auto simp: search_def js thrown_remutex SearchWorker_mutex
            intro!: queue_remutex SearchWorker_Execute_remutex)
  qed
qed

lemma searchBatch_remutex:
  assumes "wrapper_js h = Some w"
  shows "searchBatch F (h\<lparr>wrapper_js := Some (w\<lparr>mutex_w := m\<rparr>)\<rparr>) info =
           remutex_js m (searchBatch F h info)"
proof -
  have js: "JS_SearchBatch (h\<lparr>wrapper_js := Some (w\<lparr>mutex_w := m\<rparr>)\<rparr>) info =
              map_prod id (map (relabel m)) (JS_SearchBatch h info)"
    unfolding JS_SearchBatch_def dims_js_remutex by (rule validated_remutex [OF assms])
  show ?thesis
  proof (cases "JS_SearchBatch h info")
    case (Pair r ev)
    then show ?thesis
      using assms
      by (cases r)
         (auto simp: searchBatch_def js thrown_remutex SearchBatchWorker_mutex
            intro!: queue_remutex SearchBatchWorker_Execute_remutex)
  qed
qed

lemma rangeSearch_remutex:
  assumes "wrapper_js h = Some w"
  shows "rangeSearch F (h\<lparr>wrapper_js := Some (w\<lparr>mutex_w := m\<rparr>)\<rparr>) info =
           remutex_js m (rangeSearch F h info)"
proof -
  have js: "JS_RangeSearch (h\<lparr>wrapper_js := Some (w\<lparr>mutex_w := m\<rparr>)\<rparr>) info =
              map_prod id (map (relabel m)) (JS_RangeSearch h info)"
    unfolding JS_RangeSearch_def dims_js_remutex by (rule validated_remutex [OF assms])
  show ?thesis
  proof (cases "JS_RangeSearch h info")
    case (Pair r ev)
    then show ?thesis
      using assms
      by (cases r)
         (auto simp: rangeSearch_def js thrown_remutex RangeSearchWorker_mutex
            intro!: queue_remutex RangeSearchWorker_Execute_remutex)
  qed
qed

lemma toBuffer_remutex:
  assumes "wrapper_js h = Some w"
  shows "toBuffer F (h\<lparr>wrapper_js := Some (w\<lparr>mutex_w := m\<rparr>)\<rparr>) = remutex_js m (toBuffer F h)"
proof -
  have js: "JS_ToBuffer (h\<lparr>wrapper_js := Some (w\<lparr>mutex_w := m\<rparr>)\<rparr>) =
              map_prod id (map (relabel m)) (JS_ToBuffer h)"
    using assms by (simp add: JS_ToBuffer_def validated_remutex)
  show ?thesis
  proof (cases "JS_ToBuffer h")
    case (Pair r ev)
    then show ?thesis
      using assms
      by (cases r)
         (auto simp: toBuffer_def js thrown_remutex
            intro!: queue_remutex ToBufferWorker_Execute_remutex)
  qed
qed

lemma getStats_remutex:
  assumes "wrapper_js h = Some w"
  shows "getStats F (h\<lparr>wrapper_js := Some (w\<lparr>mutex_w := m\<rparr>)\<rparr>) = remutex_js m (getStats F h)"
proof (cases "ValidateNotDisposed h")
  case (Pair e ev)
  then show ?thesis
    using assms
    by (cases "GetTotalVectors F w"; cases "IsTrained F w")
       (auto simp: getStats_def JS_GetStats_def ValidateNotDisposed_remutex GetTotalVectors_remutex
          IsTrained_remutex remutex_def remutex_js_def GetDimensions_def
          split: option.splits sum.splits)
qed

section \<open>The buffer round trip\<close>

lemma toBuffer_live:
  assumes "wrapper_js h = Some w" "\<not> disposed_w w" "index_w w = Some b"
    and "faiss_write_index F b = Inr bytes"
  shows "toBuffer F h =
     (Fulfilled bytes, h,
      [Acquire (mutex_w w), Release (mutex_w w), Acquire (mutex_w w), Release (mutex_w w),
       Acquire (mutex_w w), Backend (mutex_w w), Release (mutex_w w)])"
  using assms
  by (simp add: toBuffer_def JS_ToBuffer_def validated_def ValidateNotDisposed_def IsDisposed_def
      queue_def ToBufferWorker_Execute_def try_live_def caught_def ToBuffer_def locked_def
      with_index_def same_wrapper)

lemma take_all_bytes:
  "length bytes < 2 ^ 64 \<Longrightarrow> take (unat (of_nat (length bytes) :: size_t)) bytes = bytes"
  by (simp add: unat_of_nat64)

lemma length_word_nonzero:
  "bytes \<noteq> [] \<Longrightarrow> length bytes < 2 ^ 64 \<Longrightarrow> (of_nat (length bytes) :: size_t) \<noteq> 0"
  using unat_of_nat64 [of "length bytes"] by (metis length_0_conv unat_0)

lemma fromBuffer_of_bytes:
  assumes "bytes \<noteq> []" "length bytes < 2 ^ 64" "faiss_read_index F bytes = Inr b"
    and "0 < sint (faiss_d F b)" "faiss_index_factory F (faiss_d F b) ''Flat'' 1 = Inr b0"
  shows "JS_FromBuffer F m m' [Buffer bytes] =
     Inr \<lparr>wrapper_js = Some \<lparr>index_w = Some b, dims_w = faiss_d F b, disposed_w = False, mutex_w = m\<rparr>,
          dims_js = faiss_d F b\<rparr>"
  using assms(3,4,5) take_all_bytes [OF assms(2)] length_word_nonzero [OF assms(1,2)]
  by (simp add: JS_FromBuffer_def FromBuffer_def wrap_loaded_def FaissIndexWrapper1_def
      FaissIndexWrapper_def adopt_def GetDimensions_def FaissIndexWrapperJS_def index_type_def Let_def)

lemma fst_remutex_js: "fst (remutex_js m x) = fst x"
  by (cases x) (simp add: remutex_js_def)

lemma live_handle_eq:
  assumes "wrapper_js h = Some w" "\<not> disposed_w w" "index_w w = Some b"
    and "dims_w w = d" "dims_js h = d"
  shows "\<lparr>wrapper_js = Some \<lparr>index_w = Some b, dims_w = d, disposed_w = False, mutex_w = m\<rparr>,
          dims_js = d\<rparr> = h\<lparr>wrapper_js := Some (w\<lparr>mutex_w := m\<rparr>)\<rparr>"
  using assms by (cases h; cases w) simp

text \<open>
  Claim C4. Let \<open>h\<close> be a live handle whose recorded dimension is that of its index,
  and let the library write the index to a buffer that is not empty, read that buffer
  back as the same index, and build the flat index that \<open>FromBuffer\<close> and the
  constructor make first. Then toBuffer is fulfilled with the buffer, and fromBuffer of
  it returns \<open>h\<close> with a wrapper that differs in the identity of its mutex only.
  getStats reports the same \<open>ntotal\<close>, dimension and trained state on both, and
  search, searchBatch, rangeSearch and toBuffer give on the new handle, for every
  argument list, what they give on \<open>h\<close>.
\<close>

theorem buffer_round_trip:
  assumes "wrapper_js h = Some w" "\<not> disposed_w w" "index_w w = Some b"
    and "dims_w w = faiss_d F b" "dims_js h = faiss_d F b" "0 < sint (faiss_d F b)"
    and "faiss_write_index F b = Inr bytes" "bytes \<noteq> []" "length bytes < 2 ^ 64"
    and "faiss_read_index F bytes = Inr b"
    and "faiss_index_factory F (faiss_d F b) ''Flat'' 1 = Inr b0"
  shows "fst (toBuffer F h) = Fulfilled bytes
       \<and> JS_FromBuffer F m m' [Buffer bytes] = Inr (h\<lparr>wrapper_js := Some (w\<lparr>mutex_w := m\<rparr>)\<rparr>)
       \<and> fst (getStats F (h\<lparr>wrapper_js := Some (w\<lparr>mutex_w := m\<rparr>)\<rparr>)) =
           Fulfilled \<lparr>stats_ntotal = faiss_ntotal F b, stats_dims = faiss_d F b,
                       stats_isTrained = faiss_is_trained F b, stats_type = ''FLAT_L2''\<rparr>
       \<and> fst (getStats F h) =
           Fulfilled \<lparr>stats_ntotal = faiss_ntotal F b, stats_dims = faiss_d F b,
                       stats_isTrained = faiss_is_trained F b, stats_type = ''FLAT_L2''\<rparr>
       \<and> fst (search F (h\<lparr>wrapper_js := Some (w\<lparr>mutex_w := m\<rparr>)\<rparr>) info) = fst (search F h info)
       \<and> fst (searchBatch F (h\<lparr>wrapper_js := Some (w\<lparr>mutex_w := m\<rparr>)\<rparr>) info) =
           fst (searchBatch F h info)
       \<and> fst (rangeSearch F (h\<lparr>wrapper_js := Some (w\<lparr>mutex_w := m\<rparr>)\<rparr>) info) =
           fst (rangeSearch F h info)
       \<and> fst (toBuffer F (h\<lparr>wrapper_js := Some (w\<lparr>mutex_w := m\<rparr>)\<rparr>)) = fst (toBuffer F h)"
proof -
  have a: "fst (toBuffer F h) = Fulfilled bytes"
    using toBuffer_live [OF assms(1,2,3,7)] by simp
  have b: "JS_FromBuffer F m m' [Buffer bytes] = Inr (h\<lparr>wrapper_js := Some (w\<lparr>mutex_w := m\<rparr>)\<rparr>)"
    using fromBuffer_of_bytes [OF assms(8,9,10,6,11)] live_handle_eq [OF assms(1,2,3,4,5)]
    by simp
  have c: "fst (getStats F h) =
           Fulfilled \<lparr>stats_ntotal = faiss_ntotal F b, stats_dims = faiss_d F b,
                       stats_isTrained = faiss_is_trained F b, stats_type = ''FLAT_L2''\<rparr>"
    using getStats_live [OF assms(1,2,3)] assms(4) by simp
  have d: "fst (getStats F (h\<lparr>wrapper_js := Some (w\<lparr>mutex_w := m\<rparr>)\<rparr>)) = fst (getStats F h)"
    by (simp add: getStats_remutex [OF assms(1)] fst_remutex_js)
  show ?thesis
    using a b c d
    by (simp add: search_remutex [OF assms(1)] searchBatch_remutex [OF assms(1)]
        rangeSearch_remutex [OF assms(1)] toBuffer_remutex [OF assms(1)] fst_remutex_js)
qed

theorem buffer_round_trip_witness:
  "faiss_write_index flat \<lparr>flat_d = 4, flat_metric = 1, flat_codes = [1, 2, 3, 4]\<rparr> =
     Inr [4, 0, 0, 0, 1, 0, 0, 0, 1, 0, 0, 0, 2, 0, 0, 0, 3, 0, 0, 0, 4, 0, 0, 0]
   \<and> faiss_read_index flat [4, 0, 0, 0, 1, 0, 0, 0, 1, 0, 0, 0, 2, 0, 0, 0, 3, 0, 0, 0, 4, 0, 0, 0] =
     Inr \<lparr>flat_d = 4, flat_metric = 1, flat_codes = [1, 2, 3, 4]\<rparr>
   \<and> fst (toBuffer flat (flat_handle 1 4 [1, 2, 3, 4])) =
       Fulfilled [4, 0, 0, 0, 1, 0, 0, 0, 1, 0, 0, 0, 2, 0, 0, 0, 3, 0, 0, 0, 4, 0, 0, 0]
   \<and> JS_FromBuffer flat 2 3
         [Buffer [4, 0, 0, 0, 1, 0, 0, 0, 1, 0, 0, 0, 2, 0, 0, 0, 3, 0, 0, 0, 4, 0, 0, 0]] =
       Inr (flat_handle 2 4 [1, 2, 3, 4])
   \<and> fst (search flat (flat_handle 2 4 [1, 2, 3, 4]) [Float32Array [1, 2, 3, 4], JSNumber 5 0]) =
       fst (search flat (flat_handle 1 4 [1, 2, 3, 4]) [Float32Array [1, 2, 3, 4], JSNumber 5 0])"
proof -
  have w: "faiss_write_index flat \<lparr>flat_d = 4, flat_metric = 1, flat_codes = [1, 2, 3, 4]\<rparr> =
     Inr [4, 0, 0, 0, 1, 0, 0, 0, 1, 0, 0, 0, 2, 0, 0, 0, 3, 0, 0, 0, 4, 0, 0, 0]"
    by (simp add: flat_def flat_write_index_def le32_def)
  have r: "faiss_read_index flat [4, 0, 0, 0, 1, 0, 0, 0, 1, 0, 0, 0, 2, 0, 0, 0, 3, 0, 0, 0, 4, 0, 0, 0] =
     Inr \<lparr>flat_d = 4, flat_metric = 1, flat_codes = [1, 2, 3, 4]\<rparr>"
    by (simp add: flat_def flat_read_index_def)
  have f: "faiss_index_factory flat (faiss_d flat \<lparr>flat_d = 4, flat_metric = 1, flat_codes = [1, 2, 3, 4]\<rparr>)
             ''Flat'' 1 = Inr \<lparr>flat_d = 4, flat_metric = 1, flat_codes = []\<rparr>"
    by (simp add: flat_def)
  have h: "flat_handle 1 4 [1, 2, 3, 4]\<lparr>wrapper_js := Some (flat_wrapper 1 4 [1, 2, 3, 4]\<lparr>mutex_w := 2\<rparr>)\<rparr>
             = flat_handle 2 4 [1, 2, 3, 4]"
    by (simp add: flat_handle_def flat_wrapper_def)
  show ?thesis
    using w r
      buffer_round_trip [of "flat_handle 1 4 [1, 2, 3, 4]" "flat_wrapper 1 4 [1, 2, 3, 4]"
        "\<lparr>flat_d = 4, flat_metric = 1, flat_codes = [1, 2, 3, 4]\<rparr>" flat
        "[4, 0, 0, 0, 1, 0, 0, 0, 1, 0, 0, 0, 2, 0, 0, 0, 3, 0, 0, 0, 4, 0, 0, 0]"
        "\<lparr>flat_d = 4, flat_metric = 1, flat_codes = []\<rparr>" 2 3
        "[Float32Array [1, 2, 3, 4], JSNumber 5 0]", OF _ _ _ _ _ _ w _ _ r f]
    by (simp add: h) (simp add: flat_handle_def flat_wrapper_def flat_def)
qed

end
